theory Spec2Isabelle
  imports Main "HOL-Library.Word"
begin

unbundle bit_operations_syntax

section \<open>Device memory and device buffers\<close>

text \<open>
  The handler of \<^verbatim>\<open>brainstorm/handlers/pycuda_handler.py\<close> works on pycuda
  \<^verbatim>\<open>GPUArray\<close> objects. A \<^verbatim>\<open>GPUArray\<close> is a device pointer
  (\<^verbatim>\<open>gpudata\<close>) with a shape; the handler fixes the element type to
  \<^verbatim>\<open>np.float32\<close> (\<^verbatim>\<open>self.dtype = np.float32\<close>), four bytes an element.
  Device memory is one byte-addressed address space, total: an address outside every
  allocation still holds some byte. Two buffers alias when their extents share an
  address; \<^verbatim>\<open>reshape\<close> and \<^verbatim>\<open>slice\<close> return such views.

  A float32 is kept as its 32-bit IEEE 754 pattern, stored little-endian as on the device.
  Sizes and flat indices are natural numbers: the 32-bit index of a kernel thread does not
  wrap for a buffer below \<open>2 ^ 32\<close> elements, and larger buffers are outside the model.
\<close>

type_synonym byte = "8 word"
type_synonym float32 = "32 word"
type_synonym float64 = "64 word"
type_synonym devmem = "nat \<Rightarrow> byte"

text \<open>
  A contiguous array lies in memory row-major (C order, the last index varying fastest) or
  column-major (Fortran order, the first index varying fastest). numpy and pycuda keep
  this as the array's strides. The buffers the handler allocates are row-major; a buffer
  that \<^verbatim>\<open>gpuarray.to_gpu\<close> creates has the order of the host array it is given.
  Kernels and raw copies address a buffer by flat position in memory, whatever its order.
\<close>

datatype layout = C_contiguous | F_contiguous

record gpuarray =
  gpudata :: nat
  shape :: "nat list"
  layout :: layout

definition itemsize :: nat where
  "itemsize = 4"

text \<open>\<^verbatim>\<open>x.size\<close>: the product of the shape, 1 for the shape \<^verbatim>\<open>()\<close>.\<close>

definition gpu_size :: "gpuarray \<Rightarrow> nat" where
  "gpu_size a = prod_list (shape a)"

definition nbytes :: "gpuarray \<Rightarrow> nat" where
  "nbytes a = gpu_size a * itemsize"

definition extent :: "gpuarray \<Rightarrow> nat set" where
  "extent a = {gpudata a ..< gpudata a + nbytes a}"

definition st32 :: "devmem \<Rightarrow> nat \<Rightarrow> float32 \<Rightarrow> devmem" where
  "st32 m p w = m(p := ucast w, p + 1 := ucast (drop_bit 8 w),
                  p + 2 := ucast (drop_bit 16 w), p + 3 := ucast (drop_bit 24 w))"

definition ld32 :: "devmem \<Rightarrow> nat \<Rightarrow> float32" where
  "ld32 m p = ucast (m p) OR push_bit 8 (ucast (m (p + 1)))
              OR push_bit 16 (ucast (m (p + 2))) OR push_bit 24 (ucast (m (p + 3)))"

text \<open>\<^verbatim>\<open>a[i]\<close> in a kernel: the float32 at flat index \<open>i\<close> of buffer \<open>a\<close>.\<close>

definition cell :: "gpuarray \<Rightarrow> nat \<Rightarrow> nat" where
  "cell a i = gpudata a + itemsize * i"

definition elt :: "devmem \<Rightarrow> gpuarray \<Rightarrow> nat \<Rightarrow> float32" where
  "elt m a i = ld32 m (cell a i)"

section \<open>Python errors, host arrays and transfers\<close>

text \<open>
  A failed \<^verbatim>\<open>assert\<close> raises \<^verbatim>\<open>AssertionError\<close>, \<^verbatim>\<open>raise NotImplementedError\<close>
  raises that, indexing a tuple past its end raises \<^verbatim>\<open>IndexError\<close>, and evaluating a
  name bound in no enclosing scope raises \<^verbatim>\<open>NameError\<close>. A call that raises returns
  \<open>Inl\<close> of the error and no new memory: the caller still holds the memory it passed.
\<close>

datatype pyerr = AssertionError | NotImplementedError | IndexError | NameError string

text \<open>
  A numpy array on the host: its shape, its elements listed by index in row-major order
  (what the array is, as \<^verbatim>\<open>arr.tolist()\<close> flattened shows it), of any element type
  \<open>'h\<close>, and the order in which its buffer holds them. It has as many elements as its
  shape says. \<^verbatim>\<open>arr.astype(self.dtype)\<close> converts each element to float32 and keeps
  the shape and, with numpy's default \<^verbatim>\<open>order='K'\<close>, the memory order; the conversion
  of one element is numpy's and is a parameter here. An array whose converted copy is
  neither row-major nor column-major (an axis permutation of three dimensions or more)
  is outside the model.
\<close>

record 'h ndarray =
  nd_shape :: "nat list"
  nd_data :: "'h list"
  nd_layout :: layout

definition astype :: "('h \<Rightarrow> float32) \<Rightarrow> 'h ndarray \<Rightarrow> float32 ndarray" where
  "astype cast arr =
     \<lparr>nd_shape = nd_shape arr, nd_data = map cast (nd_data arr), nd_layout = nd_layout arr\<rparr>"

text \<open>
  The multi-index of a flat position and the flat position of a multi-index, row-major
  (\<open>_c\<close>) and column-major (\<open>_f\<close>), for a shape.
\<close>

fun unravel_c :: "nat list \<Rightarrow> nat \<Rightarrow> nat list" where
  "unravel_c [] k = []"
| "unravel_c (d # ds) k = (k div prod_list ds) # unravel_c ds (k mod prod_list ds)"

fun ravel_c :: "nat list \<Rightarrow> nat list \<Rightarrow> nat" where
  "ravel_c (d # ds) (i # idx) = i * prod_list ds + ravel_c ds idx"
| "ravel_c ds idx = 0"

fun unravel_f :: "nat list \<Rightarrow> nat \<Rightarrow> nat list" where
  "unravel_f [] j = []"
| "unravel_f (d # ds) j = (j mod d) # unravel_f ds (j div d)"

fun ravel_f :: "nat list \<Rightarrow> nat list \<Rightarrow> nat" where
  "ravel_f (d # ds) (i # idx) = i + d * ravel_f ds idx"
| "ravel_f ds idx = 0"

text \<open>
  \<open>mem_index\<close>: where in the buffer the element with row-major index \<open>k\<close> lies;
  \<open>logical_index\<close>: the row-major index of the element at position \<open>j\<close> of the buffer.
\<close>

fun mem_index :: "layout \<Rightarrow> nat list \<Rightarrow> nat \<Rightarrow> nat" where
  "mem_index C_contiguous s k = k"
| "mem_index F_contiguous s k = ravel_f s (unravel_c s k)"

fun logical_index :: "layout \<Rightarrow> nat list \<Rightarrow> nat \<Rightarrow> nat" where
  "logical_index C_contiguous s j = j"
| "logical_index F_contiguous s j = ravel_c s (unravel_f s j)"

text \<open>The elements as the buffer holds them, and the elements by index from a buffer.\<close>

definition to_buffer :: "layout \<Rightarrow> nat list \<Rightarrow> 'a list \<Rightarrow> 'a list" where
  "to_buffer l s xs = map (\<lambda>j. xs ! logical_index l s j) [0..<length xs]"

definition from_buffer :: "layout \<Rightarrow> nat list \<Rightarrow> 'a list \<Rightarrow> 'a list" where
  "from_buffer l s buf = map (\<lambda>k. buf ! mem_index l s k) [0..<length buf]"

definition host_buffer :: "'h ndarray \<Rightarrow> 'h list" where
  "host_buffer arr = to_buffer (nd_layout arr) (nd_shape arr) (nd_data arr)"

text \<open>
  \<^verbatim>\<open>drv.memcpy_htod\<close> writes the elements of a host buffer one after the other from a
  device address; \<^verbatim>\<open>drv.memcpy_dtoh\<close> reads \<open>n\<close> elements back.
\<close>

fun memcpy_htod :: "nat \<Rightarrow> float32 list \<Rightarrow> devmem \<Rightarrow> devmem" where
  "memcpy_htod p [] m = m"
| "memcpy_htod p (w # ws) m = memcpy_htod (p + 4) ws (st32 m p w)"

definition memcpy_dtoh :: "nat \<Rightarrow> nat \<Rightarrow> devmem \<Rightarrow> float32 list" where
  "memcpy_dtoh p n m = map (\<lambda>i. ld32 m (p + 4 * i)) [0..<n]"

text \<open>
  \<^verbatim>\<open>GPUArray.set(ary)\<close> copies the host array's buffer, as it lies in host memory, to
  the device buffer: between contiguous arrays it is one raw copy, whatever the two
  memory orders are. \<^verbatim>\<open>GPUArray.get()\<close> copies the device buffer into a host array of
  the buffer's shape and memory order. \<^verbatim>\<open>gpuarray.to_gpu(ary)\<close> allocates a buffer of
  the array's shape and memory order and sets it from the array. The address \<open>p\<close> is
  the one the driver's allocator returns.
\<close>

definition gpu_set :: "gpuarray \<Rightarrow> float32 ndarray \<Rightarrow> devmem \<Rightarrow> devmem" where
  "gpu_set mem ary m = memcpy_htod (gpudata mem) (host_buffer ary) m"

definition gpu_get :: "gpuarray \<Rightarrow> devmem \<Rightarrow> float32 ndarray" where
  "gpu_get mem m =
     \<lparr>nd_shape = shape mem,
      nd_data = from_buffer (layout mem) (shape mem) (memcpy_dtoh (gpudata mem) (gpu_size mem) m),
      nd_layout = layout mem\<rparr>"

definition to_gpu :: "nat \<Rightarrow> float32 ndarray \<Rightarrow> devmem \<Rightarrow> gpuarray \<times> devmem" where
  "to_gpu p ary m =
     (let result = \<lparr>gpudata = p, shape = nd_shape ary, layout = nd_layout ary\<rparr>
      in (result, gpu_set result ary m))"

text \<open>What a handler method can be handed where it expects a buffer.\<close>

datatype pyobj = GPUArray gpuarray | NDArray "float32 ndarray" | PyNone

subsection \<open>Raw device copies\<close>

definition read_bytes :: "devmem \<Rightarrow> nat \<Rightarrow> nat \<Rightarrow> byte list" where
  "read_bytes m p n = map (\<lambda>j. m (p + j)) [0..<n]"

definition write_bytes :: "devmem \<Rightarrow> nat \<Rightarrow> byte list \<Rightarrow> devmem" where
  "write_bytes m p bs = (\<lambda>q. if p \<le> q \<and> q < p + length bs then bs ! (q - p) else m q)"

text \<open>
  \<^verbatim>\<open>drv.memcpy_dtod(dest, src, size)\<close>: the driver copies \<open>size\<close> bytes from the
  device address \<open>src\<close> to the device address \<open>dest\<close>. It takes addresses and a count,
  so it knows nothing of the buffers they came from. The bytes are read before any is written.
\<close>

definition memcpy_dtod :: "nat \<Rightarrow> nat \<Rightarrow> nat \<Rightarrow> devmem \<Rightarrow> devmem" where
  "memcpy_dtod dest src count m = write_bytes m dest (read_bytes m src count)"

section \<open>float32 on the device\<close>

text \<open>
  Comparisons of IEEE 754 binary32 values are exact and are defined on the bit pattern.
  A pattern is a NaN when exponent bits are all ones and the fraction is not zero. For the
  others, the sign-and-magnitude reading \<open>fkey\<close> orders patterns as the values they
  denote, \<open>-0\<close> and \<open>+0\<close> both reading 0. A comparison with a NaN operand is false.
\<close>

definition is_nan :: "float32 \<Rightarrow> bool" where
  "is_nan w \<longleftrightarrow> 0x7F800000 < (w AND 0x7FFFFFFF)"

definition fkey :: "float32 \<Rightarrow> int" where
  "fkey w = (if bit w 31 then - uint (w AND 0x7FFFFFFF) else uint (w AND 0x7FFFFFFF))"

definition f_lt :: "float32 \<Rightarrow> float32 \<Rightarrow> bool" where
  "f_lt x y \<longleftrightarrow> \<not> is_nan x \<and> \<not> is_nan y \<and> fkey x < fkey y"


text \<open>
  The device's minimum and maximum order \<open>-0\<close> below \<open>+0\<close>. \<open>ford\<close> reads a
  pattern that is not a NaN as \<open>fkey\<close> does, but the patterns with the sign bit one
  lower, so that no two patterns read the same and \<open>-0\<close> comes just below \<open>+0\<close>.
\<close>

definition ford :: "float32 \<Rightarrow> int" where
  "ford w = (if bit w 31 then fkey w - 1 else fkey w)"

definition f_below :: "float32 \<Rightarrow> float32 \<Rightarrow> bool" where
  "f_below x y \<longleftrightarrow> ford x < ford y"

text \<open>
  The conversion of an unsigned integer to float32, as C applies it where a kernel
  compares a float with an integer: exact up to \<open>2 ^ 24\<close>, rounded to the nearest
  24-bit significand, ties to even, above.
\<close>

fun bitlen :: "nat \<Rightarrow> nat" where
  "bitlen n = (if n = 0 then 0 else Suc (bitlen (n div 2)))"

declare bitlen.simps [simp del]

definition float_of_nat :: "nat \<Rightarrow> float32" where
  "float_of_nat n =
     (if n = 0 then 0
      else let e = bitlen n - 1 in
        if e \<le> 23 then of_nat ((e + 127) * 2 ^ 23 + (n * 2 ^ (23 - e) - 2 ^ 23))
        else let sh = e - 23; q = n div 2 ^ sh; r = n mod 2 ^ sh; half = 2 ^ (sh - 1);
                 q' = (if half < r \<or> (r = half \<and> odd q) then q + 1 else q)
             in of_nat ((e + 127) * 2 ^ 23 + (q' - 2 ^ 23)))"

text \<open>The constants \<^verbatim>\<open>0.0f\<close>, \<^verbatim>\<open>1.0f\<close>, \<^verbatim>\<open>-1.0f\<close> and the double \<^verbatim>\<open>1.0\<close>.\<close>

definition f_zero :: float32 where "f_zero = 0x00000000"
definition f_minus_one :: float32 where "f_minus_one = 0xBF800000"
definition d_one :: float64 where "d_one = 0x3FF0000000000000"

text \<open>
  Rounded arithmetic is the device's: the four float operations, \<^verbatim>\<open>exp\<close> and
  \<^verbatim>\<open>tanh\<close> at float, the promotion of a float to double, the rounding of a double to
  float on a store, and the four double operations that a double literal such as
  \<^verbatim>\<open>1.0\<close> brings into an expression. So is the NaN that \<^verbatim>\<open>fmaxf\<close> and
  \<^verbatim>\<open>fminf\<close> return when both operands are NaNs. They are parameters: every theorem
  below holds whatever these functions compute.
\<close>

record fpu =
  fmul :: "float32 \<Rightarrow> float32 \<Rightarrow> float32"
  fadd :: "float32 \<Rightarrow> float32 \<Rightarrow> float32"
  fsub :: "float32 \<Rightarrow> float32 \<Rightarrow> float32"
  fdiv :: "float32 \<Rightarrow> float32 \<Rightarrow> float32"
  expf :: "float32 \<Rightarrow> float32"
  tanhf :: "float32 \<Rightarrow> float32"
  f2d :: "float32 \<Rightarrow> float64"
  d2f :: "float64 \<Rightarrow> float32"
  dadd :: "float64 \<Rightarrow> float64 \<Rightarrow> float64"
  dsub :: "float64 \<Rightarrow> float64 \<Rightarrow> float64"
  dmul :: "float64 \<Rightarrow> float64 \<Rightarrow> float64"
  ddiv :: "float64 \<Rightarrow> float64 \<Rightarrow> float64"
  fmax_nan :: "float32 \<Rightarrow> float32 \<Rightarrow> float32"
  fmin_nan :: "float32 \<Rightarrow> float32 \<Rightarrow> float32"

text \<open>
  \<^verbatim>\<open>fmaxf\<close> and \<^verbatim>\<open>fminf\<close> take a NaN operand as missing and return the other
  operand; of two operands that are not NaNs they return the greater and the smaller,
  \<open>+0\<close> counting as greater than \<open>-0\<close>.
\<close>

definition fmaxf :: "fpu \<Rightarrow> float32 \<Rightarrow> float32 \<Rightarrow> float32" where
  "fmaxf u x y =
     (if is_nan x \<and> is_nan y then fmax_nan u x y
      else if is_nan x then y else if is_nan y then x
      else if f_below x y then y else x)"

definition fminf :: "fpu \<Rightarrow> float32 \<Rightarrow> float32 \<Rightarrow> float32" where
  "fminf u x y =
     (if is_nan x \<and> is_nan y then fmin_nan u x y
      else if is_nan x then y else if is_nan y then x
      else if f_below y x then y else x)"

section \<open>Elementwise kernels\<close>

text \<open>
  \<^verbatim>\<open>ElementwiseKernel(arguments, operation, name)\<close> compiles \<open>operation\<close> into a
  kernel that runs it once for every flat index \<open>i\<close>. Called without a range, pycuda
  launches it over the indices of the first array among its arguments, \<open>i < n\<close> for that
  array's \<^verbatim>\<open>size\<close>. Every operation of this module stores one float32, so a thread is
  the address it writes and the value it writes there.

  The threads run concurrently. Each reads the memory as it stands at the launch, which
  is what the device computes whenever no thread writes a cell that another thread reads:
  buffers that coincide or are disjoint.
\<close>

definition launch :: "nat \<Rightarrow> (nat \<Rightarrow> nat \<times> float32) \<Rightarrow> devmem \<Rightarrow> devmem" where
  "launch n thread m = foldl (\<lambda>m' i. st32 m' (fst (thread i)) (snd (thread i))) m [0..<n]"

text \<open>
  \<^verbatim>\<open>
  mult_kernel = ElementwiseKernel("float* x, float* y, float *out", "out[i] = x[i] * y[i]", ...)
  mult_add_kernel = ElementwiseKernel("float* x, float* y, float *out", "out[i] += x[i] * y[i]", ...)
  add_mm_kernel = ElementwiseKernel("float* x, float* y, float *out", "out[i] = x[i] + y[i]", ...)
  subtract_mm_kernel = ElementwiseKernel("float* x, float* y, float *out", "out[i] = x[i] - y[i]", ...)
  div_kernel = ElementwiseKernel("float* a, float* b, float* out", "out[i] = a[i] / b[i];", ...)
  \<close>
\<close>

definition mult_kernel :: "fpu \<Rightarrow> gpuarray \<Rightarrow> gpuarray \<Rightarrow> gpuarray \<Rightarrow> devmem \<Rightarrow> devmem" where
  "mult_kernel u x y out m =
     launch (gpu_size x) (\<lambda>i. (cell out i, fmul u (elt m x i) (elt m y i))) m"

definition mult_add_kernel :: "fpu \<Rightarrow> gpuarray \<Rightarrow> gpuarray \<Rightarrow> gpuarray \<Rightarrow> devmem \<Rightarrow> devmem" where
  "mult_add_kernel u x y out m =
     launch (gpu_size x) (\<lambda>i. (cell out i, fadd u (elt m out i) (fmul u (elt m x i) (elt m y i)))) m"

definition add_mm_kernel :: "fpu \<Rightarrow> gpuarray \<Rightarrow> gpuarray \<Rightarrow> gpuarray \<Rightarrow> devmem \<Rightarrow> devmem" where
  "add_mm_kernel u x y out m =
     launch (gpu_size x) (\<lambda>i. (cell out i, fadd u (elt m x i) (elt m y i))) m"

definition subtract_mm_kernel :: "fpu \<Rightarrow> gpuarray \<Rightarrow> gpuarray \<Rightarrow> gpuarray \<Rightarrow> devmem \<Rightarrow> devmem" where
  "subtract_mm_kernel u x y out m =
     launch (gpu_size x) (\<lambda>i. (cell out i, fsub u (elt m x i) (elt m y i))) m"

definition div_kernel :: "fpu \<Rightarrow> gpuarray \<Rightarrow> gpuarray \<Rightarrow> gpuarray \<Rightarrow> devmem \<Rightarrow> devmem" where
  "div_kernel u a b out m =
     launch (gpu_size a) (\<lambda>i. (cell out i, fdiv u (elt m a i) (elt m b i))) m"

text \<open>
  \<^verbatim>\<open>
  sigmoid_kernel = ElementwiseKernel("float* x, float* y", "y[i] = 1.0/(1.0 + exp(-1*x[i]))", ...)
  sigmoid_deriv_kernel = ElementwiseKernel("float* x, float* y, float* dy, float* dx",
      "dx[i] = dy[i] * y[i] * (1.0 - y[i])", ...)
  tanh_kernel = ElementwiseKernel("float* x, float* y", "y[i] = tanh(x[i])", ...)
  tanh_deriv_kernel = ElementwiseKernel("float* x, float* y, float* dy, float* dx",
      "dx[i] = dy[i] * (1.0 - y[i] * y[i])", ...)
  \<close>
  The literal \<^verbatim>\<open>1.0\<close> is a double, so the operations next to it are double operations
  and the result is rounded to float when stored. The derivative kernels take \<open>x\<close> first
  and never read it; it sets the number of threads.
\<close>

definition sigmoid_kernel :: "fpu \<Rightarrow> gpuarray \<Rightarrow> gpuarray \<Rightarrow> devmem \<Rightarrow> devmem" where
  "sigmoid_kernel u x y m =
     launch (gpu_size x)
       (\<lambda>i. (cell y i,
          d2f u (ddiv u d_one (dadd u d_one (f2d u (expf u (fmul u f_minus_one (elt m x i)))))))) m"

definition sigmoid_deriv_kernel ::
  "fpu \<Rightarrow> gpuarray \<Rightarrow> gpuarray \<Rightarrow> gpuarray \<Rightarrow> gpuarray \<Rightarrow> devmem \<Rightarrow> devmem" where
  "sigmoid_deriv_kernel u x y dy dx m =
     launch (gpu_size x)
       (\<lambda>i. (cell dx i,
          d2f u (dmul u (f2d u (fmul u (elt m dy i) (elt m y i)))
                        (dsub u d_one (f2d u (elt m y i)))))) m"

definition tanh_kernel :: "fpu \<Rightarrow> gpuarray \<Rightarrow> gpuarray \<Rightarrow> devmem \<Rightarrow> devmem" where
  "tanh_kernel u x y m = launch (gpu_size x) (\<lambda>i. (cell y i, tanhf u (elt m x i))) m"

definition tanh_deriv_kernel ::
  "fpu \<Rightarrow> gpuarray \<Rightarrow> gpuarray \<Rightarrow> gpuarray \<Rightarrow> gpuarray \<Rightarrow> devmem \<Rightarrow> devmem" where
  "tanh_deriv_kernel u x y dy dx m =
     launch (gpu_size x)
       (\<lambda>i. (cell dx i,
          d2f u (dmul u (f2d u (elt m dy i))
                        (dsub u d_one (f2d u (fmul u (elt m y i) (elt m y i))))))) m"

text \<open>
  \<^verbatim>\<open>
  rel_kernel = ElementwiseKernel("float* x, float* y",
      "if (x[i]>0) y[i] = x[i]; else y[i]=0.0;", ...)
  rel_deriv_kernel = ElementwiseKernel("float* x, float* y, float* dy, float* dx",
      "if (y[i]>0) dx[i] = dy[i]; else dx[i]=0.0;", ...)
  clip_kernel = ElementwiseKernel("float* a, float* out, float a_min, float a_max",
      "out[i] = fminf(fmaxf(a[i], a_min), a_max);", ...)
  binarize_v_kernel = ElementwiseKernel("float* out, float* v, int nrows, int ncols",
      "out[i] = v[i/ncols] == (i % ncols) ? 1.0f : 0.0f", ...)
  \<close>
  No thread runs when \<open>ncols\<close> is 0, the buffer then being empty, so the division is
  never by zero.
\<close>

definition rel_kernel :: "gpuarray \<Rightarrow> gpuarray \<Rightarrow> devmem \<Rightarrow> devmem" where
  "rel_kernel x y m =
     launch (gpu_size x) (\<lambda>i. (cell y i, if f_lt f_zero (elt m x i) then elt m x i else f_zero)) m"

definition rel_deriv_kernel ::
  "gpuarray \<Rightarrow> gpuarray \<Rightarrow> gpuarray \<Rightarrow> gpuarray \<Rightarrow> devmem \<Rightarrow> devmem" where
  "rel_deriv_kernel x y dy dx m =
     launch (gpu_size x) (\<lambda>i. (cell dx i, if f_lt f_zero (elt m y i) then elt m dy i else f_zero)) m"

definition clip_kernel ::
  "fpu \<Rightarrow> gpuarray \<Rightarrow> gpuarray \<Rightarrow> float32 \<Rightarrow> float32 \<Rightarrow> devmem \<Rightarrow> devmem" where
  "clip_kernel u a out a_min a_max m =
     launch (gpu_size a) (\<lambda>i. (cell out i, fminf u (fmaxf u (elt m a i) a_min) a_max)) m"


section \<open>The vendor library\<close>

text \<open>
  \<^verbatim>\<open>skcuda.misc\<close> is not part of this module. What the handler calls of it are
  parameters. \<^verbatim>\<open>cumisc.sum(x_gpu, axis=None, out=None)\<close> is one function: it returns
  a buffer, which may be \<open>out\<close> or a new one, and leaves the device memory changed;
  the handler calls it as \<^verbatim>\<open>cumisc.sum(a, axis, out)\<close> and as \<^verbatim>\<open>cumisc.sum(a)\<close>.
  \<^verbatim>\<open>cumisc.mult_matvec(m, v, out=out)\<close> is the other. Each may raise.
\<close>

record skcuda =
  misc_sum :: "gpuarray \<Rightarrow> int option \<Rightarrow> gpuarray option \<Rightarrow> devmem \<Rightarrow> pyerr + gpuarray \<times> devmem"
  misc_mult_matvec :: "gpuarray \<Rightarrow> gpuarray \<Rightarrow> gpuarray \<Rightarrow> devmem \<Rightarrow> pyerr + devmem"

section \<open>The handler's methods\<close>

text \<open>
  \<^verbatim>\<open>
  def set_from_numpy(self, mem, arr):
      assert mem.shape == arr.shape, "Shape of destination ({}) != Shape " \
                                     "of source ({})".format(mem.shape, arr.shape)
      mem.set(arr.astype(self.dtype))

  def get_numpy_copy(self, mem):
      assert type(mem) == self.array_type
      return mem.get()

  def create_from_numpy(self, arr):
      return gpuarray.to_gpu(arr.astype(self.dtype))

  @staticmethod
  def copy_to(dest, src):
      # Copy data from src to dest (both must be GPUArrays)
      drv.memcpy_dtod(dest.gpudata, src.gpudata, dest.nbytes)
  \<close>
\<close>

definition set_from_numpy ::
  "('h \<Rightarrow> float32) \<Rightarrow> gpuarray \<Rightarrow> 'h ndarray \<Rightarrow> devmem \<Rightarrow> pyerr + devmem" where
  "set_from_numpy cast mem arr m =
     (if shape mem = nd_shape arr then Inr (gpu_set mem (astype cast arr) m)
      else Inl AssertionError)"

definition get_numpy_copy :: "pyobj \<Rightarrow> devmem \<Rightarrow> pyerr + float32 ndarray" where
  "get_numpy_copy mem m =
     (case mem of GPUArray g \<Rightarrow> Inr (gpu_get g m) | _ \<Rightarrow> Inl AssertionError)"

definition create_from_numpy ::
  "('h \<Rightarrow> float32) \<Rightarrow> nat \<Rightarrow> 'h ndarray \<Rightarrow> devmem \<Rightarrow> gpuarray \<times> devmem" where
  "create_from_numpy cast p arr m = to_gpu p (astype cast arr) m"

definition copy_to :: "gpuarray \<Rightarrow> gpuarray \<Rightarrow> devmem \<Rightarrow> devmem" where
  "copy_to dest src m = memcpy_dtod (gpudata dest) (gpudata src) (nbytes dest) m"

text \<open>
  \<^verbatim>\<open>
  def sum_t(self, a, axis, out):
      if len(a.shape) < 3 and (axis == 0 or axis == 1):
          cumisc.sum(a, axis, out)
      elif axis is None:
          self.copy_to(out, cumisc.sum(a))
      else:
          raise NotImplementedError
  \<close>
  The axis is \<^verbatim>\<open>None\<close> or an integer. The first branch drops what the vendor
  returns; the second copies it into \<open>out\<close>.
\<close>

definition sum_t :: "skcuda \<Rightarrow> gpuarray \<Rightarrow> int option \<Rightarrow> gpuarray \<Rightarrow> devmem \<Rightarrow> pyerr + devmem" where
  "sum_t sk a axis out m =
     (if length (shape a) < 3 \<and> (axis = Some 0 \<or> axis = Some 1) then
        (case misc_sum sk a axis (Some out) m of
           Inl e \<Rightarrow> Inl e
         | Inr (r, m1) \<Rightarrow> Inr m1)
      else if axis = None then
        (case misc_sum sk a None None m of
           Inl e \<Rightarrow> Inl e
         | Inr (r, m1) \<Rightarrow> Inr (copy_to out r m1))
      else Inl NotImplementedError)"

text \<open>
  The elementwise methods pass their arguments to the kernels;
  \<^verbatim>\<open>clip_t(a, a_min, a_max, out)\<close> calls \<^verbatim>\<open>clip_kernel(a, out, a_min, a_max)\<close>.
  The bounds reach the kernel as floats.
\<close>

definition mult_tt :: "fpu \<Rightarrow> gpuarray \<Rightarrow> gpuarray \<Rightarrow> gpuarray \<Rightarrow> devmem \<Rightarrow> devmem" where
  "mult_tt u a b out = mult_kernel u a b out"

definition mult_add_tt :: "fpu \<Rightarrow> gpuarray \<Rightarrow> gpuarray \<Rightarrow> gpuarray \<Rightarrow> devmem \<Rightarrow> devmem" where
  "mult_add_tt u a b out = mult_add_kernel u a b out"

definition add_tt :: "fpu \<Rightarrow> gpuarray \<Rightarrow> gpuarray \<Rightarrow> gpuarray \<Rightarrow> devmem \<Rightarrow> devmem" where
  "add_tt u a b out = add_mm_kernel u a b out"

definition subtract_tt :: "fpu \<Rightarrow> gpuarray \<Rightarrow> gpuarray \<Rightarrow> gpuarray \<Rightarrow> devmem \<Rightarrow> devmem" where
  "subtract_tt u a b out = subtract_mm_kernel u a b out"

definition clip_t ::
  "fpu \<Rightarrow> gpuarray \<Rightarrow> float32 \<Rightarrow> float32 \<Rightarrow> gpuarray \<Rightarrow> devmem \<Rightarrow> devmem" where
  "clip_t u a a_min a_max out = clip_kernel u a out a_min a_max"

definition divide_tt :: "fpu \<Rightarrow> gpuarray \<Rightarrow> gpuarray \<Rightarrow> gpuarray \<Rightarrow> devmem \<Rightarrow> devmem" where
  "divide_tt u a b out = div_kernel u a b out"

definition sigmoid :: "fpu \<Rightarrow> gpuarray \<Rightarrow> gpuarray \<Rightarrow> devmem \<Rightarrow> devmem" where
  "sigmoid u x y = sigmoid_kernel u x y"

definition sigmoid_deriv ::
  "fpu \<Rightarrow> gpuarray \<Rightarrow> gpuarray \<Rightarrow> gpuarray \<Rightarrow> gpuarray \<Rightarrow> devmem \<Rightarrow> devmem" where
  "sigmoid_deriv u x y dy dx = sigmoid_deriv_kernel u x y dy dx"

definition tanh :: "fpu \<Rightarrow> gpuarray \<Rightarrow> gpuarray \<Rightarrow> devmem \<Rightarrow> devmem" where
  "tanh u x y = tanh_kernel u x y"

definition tanh_deriv ::
  "fpu \<Rightarrow> gpuarray \<Rightarrow> gpuarray \<Rightarrow> gpuarray \<Rightarrow> gpuarray \<Rightarrow> devmem \<Rightarrow> devmem" where
  "tanh_deriv u x y dy dx = tanh_deriv_kernel u x y dy dx"

definition rel :: "gpuarray \<Rightarrow> gpuarray \<Rightarrow> devmem \<Rightarrow> devmem" where
  "rel x y = rel_kernel x y"

definition rel_deriv :: "gpuarray \<Rightarrow> gpuarray \<Rightarrow> gpuarray \<Rightarrow> gpuarray \<Rightarrow> devmem \<Rightarrow> devmem" where
  "rel_deriv x y dy dx = rel_deriv_kernel x y dy dx"

text \<open>
  \<^verbatim>\<open>
  @classmethod
  def mult_mv(cls, m, v, out):
      if m.shape == v.shape:
          cls.mult_tt(m, v, out=out)
      else:
          cumisc.mult_matvec(m, v, out=out)

  @staticmethod
  def binarize_v(v, out):
      binarize_v_kernel(out, v, out.shape[0], out.shape[1])
  \<close>
  \<^verbatim>\<open>out.shape[0]\<close> and \<^verbatim>\<open>out.shape[1]\<close> exist when \<open>out\<close> has two dimensions or more.
\<close>

definition mult_mv ::
  "skcuda \<Rightarrow> fpu \<Rightarrow> gpuarray \<Rightarrow> gpuarray \<Rightarrow> gpuarray \<Rightarrow> devmem \<Rightarrow> pyerr + devmem" where
  "mult_mv sk u m v out mem =
     (if shape m = shape v then Inr (mult_tt u m v out mem)
      else misc_mult_matvec sk m v out mem)"


subsection \<open>A call of an elementwise method\<close>

text \<open>
  The elementwise methods as one type of calls, with the buffer each writes, the buffers
  it is given to read, and the number of threads its kernel is launched with.
\<close>

datatype call =
    Mult_tt gpuarray gpuarray gpuarray
  | Mult_add_tt gpuarray gpuarray gpuarray
  | Add_tt gpuarray gpuarray gpuarray
  | Subtract_tt gpuarray gpuarray gpuarray
  | Divide_tt gpuarray gpuarray gpuarray
  | Clip_t gpuarray float32 float32 gpuarray
  | Sigmoid gpuarray gpuarray
  | Sigmoid_deriv gpuarray gpuarray gpuarray gpuarray
  | Tanh gpuarray gpuarray
  | Tanh_deriv gpuarray gpuarray gpuarray gpuarray
  | Rel gpuarray gpuarray
  | Rel_deriv gpuarray gpuarray gpuarray gpuarray

fun run :: "fpu \<Rightarrow> call \<Rightarrow> devmem \<Rightarrow> devmem" where
  "run u (Mult_tt a b out) = mult_tt u a b out"
| "run u (Mult_add_tt a b out) = mult_add_tt u a b out"
| "run u (Add_tt a b out) = add_tt u a b out"
| "run u (Subtract_tt a b out) = subtract_tt u a b out"
| "run u (Divide_tt a b out) = divide_tt u a b out"
| "run u (Clip_t a a_min a_max out) = clip_t u a a_min a_max out"
| "run u (Sigmoid x y) = sigmoid u x y"
| "run u (Sigmoid_deriv x y dy dx) = sigmoid_deriv u x y dy dx"
| "run u (Tanh x y) = tanh u x y"
| "run u (Tanh_deriv x y dy dx) = tanh_deriv u x y dy dx"
| "run u (Rel x y) = rel x y"
| "run u (Rel_deriv x y dy dx) = rel_deriv x y dy dx"

fun out_buf :: "call \<Rightarrow> gpuarray" where
  "out_buf (Mult_tt a b out) = out"
| "out_buf (Mult_add_tt a b out) = out"
| "out_buf (Add_tt a b out) = out"
| "out_buf (Subtract_tt a b out) = out"
| "out_buf (Divide_tt a b out) = out"
| "out_buf (Clip_t a a_min a_max out) = out"
| "out_buf (Sigmoid x y) = y"
| "out_buf (Sigmoid_deriv x y dy dx) = dx"
| "out_buf (Tanh x y) = y"
| "out_buf (Tanh_deriv x y dy dx) = dx"
| "out_buf (Rel x y) = y"
| "out_buf (Rel_deriv x y dy dx) = dx"

fun in_bufs :: "call \<Rightarrow> gpuarray list" where
  "in_bufs (Mult_tt a b out) = [a, b]"
| "in_bufs (Mult_add_tt a b out) = [a, b]"
| "in_bufs (Add_tt a b out) = [a, b]"
| "in_bufs (Subtract_tt a b out) = [a, b]"
| "in_bufs (Divide_tt a b out) = [a, b]"
| "in_bufs (Clip_t a a_min a_max out) = [a]"
| "in_bufs (Sigmoid x y) = [x]"
| "in_bufs (Sigmoid_deriv x y dy dx) = [x, y, dy]"
| "in_bufs (Tanh x y) = [x]"
| "in_bufs (Tanh_deriv x y dy dx) = [x, y, dy]"
| "in_bufs (Rel x y) = [x]"
| "in_bufs (Rel_deriv x y dy dx) = [x, y, dy]"

fun threads :: "call \<Rightarrow> nat" where
  "threads (Mult_tt a b out) = gpu_size a"
| "threads (Mult_add_tt a b out) = gpu_size a"
| "threads (Add_tt a b out) = gpu_size a"
| "threads (Subtract_tt a b out) = gpu_size a"
| "threads (Divide_tt a b out) = gpu_size a"
| "threads (Clip_t a a_min a_max out) = gpu_size a"
| "threads (Sigmoid x y) = gpu_size x"
| "threads (Sigmoid_deriv x y dy dx) = gpu_size x"
| "threads (Tanh x y) = gpu_size x"
| "threads (Tanh_deriv x y dy dx) = gpu_size x"
| "threads (Rel x y) = gpu_size x"
| "threads (Rel_deriv x y dy dx) = gpu_size x"

section \<open>The backward convolution\<close>

text \<open>
  \<^verbatim>\<open>
  @staticmethod
  def conv2d_backward_batch(out_deltas, inputs, in_deltas, weights, bias,
                            weight_deltas, bias_deltas, pad, stride):
      upscalex, upscaley = 1, 1  # currently not exposed to API

      x_desc = cudnn.cudnnCreateTensorDescriptor()
      cudnn.cudnnSetTensor4dDescriptor(x_desc, self.cudnn_tensor_format,
          self.cudnn_data_type, *inputs.shape)
      ...
  \<close>
  The method is a sequence of statements without a branch or a loop. What decides its
  outcome is which names each statement reads, in the order Python evaluates them, and
  which it binds: a name is looked up among the locals of the call (its parameters and
  the names assigned so far), then among the names the module binds at top level, then
  among the builtins. A static method has no \<^verbatim>\<open>self\<close> parameter.

  A statement is an assignment from an expression that reads some names; an assignment
  of a descriptor that \<^verbatim>\<open>cudnn\<close> creates; a call of a \<^verbatim>\<open>cudnn\<close> function on
  arguments that read some names; or the release of the descriptor a name holds. The
  library calls leave a trace of events, and a descriptor is a number.
\<close>

datatype desc_kind = TensorDescriptor | FilterDescriptor | ConvolutionDescriptor

datatype event = Created desc_kind nat | Called string | Destroyed string nat

datatype pyval = Desc nat | Obj

record frame =
  locals :: "(string \<times> pyval) list"
  events :: "event list"
  next_desc :: nat

datatype stmt =
    Assign "string list" "string list"
  | Create string desc_kind
  | Call string "string list"
  | Destroy string string

text \<open>
  The names the module binds at top level: its imports, the class, the kernels and the
  softmax module. \<^verbatim>\<open>ctypes\<close> and \<^verbatim>\<open>cudnn\<close> are bound when the guarded import
  succeeds, which a handler created with \<^verbatim>\<open>init_cudnn\<close> needs anyway. \<^verbatim>\<open>int\<close> is
  the one builtin the method names.
\<close>

definition module_globals :: "string list" where
  "module_globals =
     [''division'', ''print_function'', ''np'', ''warnings'', ''gpuarray'', ''cumath'', ''drv'',
      ''pycuda'', ''ElementwiseKernel'', ''SourceModule'', ''culinalg'', ''cumisc'', ''Handler'',
      ''ctypes'', ''cudnn'', ''PyCudaHandler'', ''mult_kernel'', ''mult_add_kernel'',
      ''mult_st_kernel'', ''add_mm_kernel'', ''add_st_kernel'', ''subtract_mm_kernel'',
      ''sigmoid_kernel'', ''sigmoid_deriv_kernel'', ''tanh_kernel'', ''tanh_deriv_kernel'',
      ''rel_kernel'', ''rel_deriv_kernel'', ''broadcast_features_kernel'', ''clip_kernel'',
      ''div_kernel'', ''binarize_v_kernel'', ''index_m_by_v_kernel'', ''__softmax_kernel_code'',
      ''_mod'', ''_softmax_impl'']"

definition builtins :: "string list" where
  "builtins = [''int'']"

definition resolve :: "frame \<Rightarrow> string \<Rightarrow> pyerr + pyval" where
  "resolve f n =
     (case map_of (locals f) n of
        Some v \<Rightarrow> Inr v
      | None \<Rightarrow> if n \<in> set module_globals \<or> n \<in> set builtins then Inr Obj
                else Inl (NameError n))"

fun first_unbound :: "frame \<Rightarrow> string list \<Rightarrow> string option" where
  "first_unbound f [] = None"
| "first_unbound f (n # ns) =
     (case resolve f n of Inl e \<Rightarrow> Some n | Inr v \<Rightarrow> first_unbound f ns)"

text \<open>
  A statement raises at the first name it cannot resolve and then changes nothing.
  A call of a \<^verbatim>\<open>cudnn\<close> function reads \<^verbatim>\<open>cudnn\<close> before its arguments.
\<close>

fun exec :: "stmt \<Rightarrow> frame \<Rightarrow> pyerr option \<times> frame" where
  "exec (Assign targets reads) f =
     (case first_unbound f reads of
        Some n \<Rightarrow> (Some (NameError n), f)
      | None \<Rightarrow> (None, f\<lparr>locals := map (\<lambda>t. (t, Obj)) targets @ locals f\<rparr>))"
| "exec (Create target k) f =
     (case first_unbound f [''cudnn''] of
        Some n \<Rightarrow> (Some (NameError n), f)
      | None \<Rightarrow> (None, f\<lparr>locals := (target, Desc (next_desc f)) # locals f,
                          events := events f @ [Created k (next_desc f)],
                          next_desc := Suc (next_desc f)\<rparr>))"
| "exec (Call fn reads) f =
     (case first_unbound f (''cudnn'' # reads) of
        Some n \<Rightarrow> (Some (NameError n), f)
      | None \<Rightarrow> (None, f\<lparr>events := events f @ [Called fn]\<rparr>))"
| "exec (Destroy fn n) f =
     (case first_unbound f [''cudnn'', n] of
        Some n' \<Rightarrow> (Some (NameError n'), f)
      | None \<Rightarrow>
          (case map_of (locals f) n of
             Some (Desc d) \<Rightarrow> (None, f\<lparr>events := events f @ [Destroyed fn d]\<rparr>)
           | _ \<Rightarrow> (None, f\<lparr>events := events f @ [Called fn]\<rparr>)))"

fun exec_body :: "stmt list \<Rightarrow> frame \<Rightarrow> pyerr option \<times> frame" where
  "exec_body [] f = (None, f)"
| "exec_body (s # ss) f =
     (case exec s f of (Some e, f') \<Rightarrow> (Some e, f') | (None, f') \<Rightarrow> exec_body ss f')"

text \<open>A call starts with its parameters bound and \<open>n\<close> the next descriptor to create.\<close>

definition call_frame :: "string list \<Rightarrow> nat \<Rightarrow> frame" where
  "call_frame params n = \<lparr>locals = map (\<lambda>p. (p, Obj)) params, events = [], next_desc = n\<rparr>"

definition conv2d_backward_batch_params :: "string list" where
  "conv2d_backward_batch_params =
     [''out_deltas'', ''inputs'', ''in_deltas'', ''weights'', ''bias'', ''weight_deltas'',
      ''bias_deltas'', ''pad'', ''stride'']"

text \<open>The statements of lines 239 to 297 of the source, one entry a statement.\<close>

definition conv2d_backward_batch_body :: "stmt list" where
  "conv2d_backward_batch_body =
     [Assign [''upscalex'', ''upscaley''] [],
      Create ''x_desc'' TensorDescriptor,
      Call ''cudnnSetTensor4dDescriptor'' [''x_desc'', ''self'', ''self'', ''inputs''],
      Create ''id_desc'' TensorDescriptor,
      Call ''cudnnSetTensor4dDescriptor'' [''id_desc'', ''self'', ''self'', ''in_deltas''],
      Create ''od_desc'' TensorDescriptor,
      Call ''cudnnSetTensor4dDescriptor'' [''od_desc'', ''self'', ''self'', ''out_deltas''],
      Create ''w_desc'' FilterDescriptor,
      Call ''cudnnSetFilter4dDescriptor'' [''w_desc'', ''self'', ''weights''],
      Create ''dw_desc'' FilterDescriptor,
      Call ''cudnnSetFilter4dDescriptor'' [''dw_desc'', ''self'', ''weight_deltas''],
      Create ''b_desc'' TensorDescriptor,
      Call ''cudnnSetTensor4dDescriptor'' [''b_desc'', ''self'', ''self'', ''bias''],
      Create ''db_desc'' TensorDescriptor,
      Call ''cudnnSetTensor4dDescriptor'' [''db_desc'', ''self'', ''self'', ''bias_deltas''],
      Create ''conv_desc'' ConvolutionDescriptor,
      Call ''cudnnSetConvolution2dDescriptor''
        [''conv_desc'', ''pad'', ''pad'', ''stride'', ''stride'', ''upscalex'', ''upscaley'', ''self''],
      Assign [''alpha'', ''beta''] [],
      Assign [''x_data''] [''ctypes'', ''int'', ''inputs''],
      Assign [''id_data''] [''ctypes'', ''int'', ''in_deltas''],
      Assign [''od_data''] [''ctypes'', ''int'', ''out_deltas''],
      Assign [''w_data''] [''ctypes'', ''int'', ''weights''],
      Assign [''b_data''] [''ctypes'', ''int'', ''bias''],
      Assign [''y_data''] [''ctypes'', ''int'', ''outputs''],
      Call ''cudnnConvolutionBackwardFilter''
        [''self'', ''alpha'', ''x_desc'', ''x_data'', ''id_desc'', ''id_data'', ''conv_desc'',
         ''beta'', ''dw_desc'', ''dw_data''],
      Call ''cudnnConvolutionBackwardData''
        [''self'', ''alpha'', ''w_desc'', ''w_data'', ''id_desc'', ''id_data'', ''conv_desc'',
         ''beta'', ''od_desc'', ''od_data''],
      Call ''cudnnConvolutionBackwardBias''
        [''self'', ''alpha'', ''od_desc'', ''od_data'', ''beta'', ''db_desc'', ''db_data''],
      Destroy ''cudnnDestroyTensorDescriptor'' ''x_desc'',
      Destroy ''cudnnDestroyTensorDescriptor'' ''id_desc'',
      Destroy ''cudnnDestroyTensorDescriptor'' ''od_desc'',
      Destroy ''cudnnDestroyFilterDescriptor'' ''w_desc'',
      Destroy ''cudnnDestroyFilterDescriptor'' ''b_desc'',
      Destroy ''cudnnDestroyFilterDescriptor'' ''dw_desc'',
      Destroy ''cudnnDestroyFilterDescriptor'' ''db_desc'',
      Destroy ''cudnnDestroyConvolutionDescriptor'' ''conv_desc'']"

definition conv2d_backward_batch :: "nat \<Rightarrow> pyerr option \<times> frame" where
  "conv2d_backward_batch n =
     exec_body conv2d_backward_batch_body (call_frame conv2d_backward_batch_params n)"

section \<open>Memory order lemmas\<close>

text \<open>
  Unravelling a flat index and ravelling it again are inverse in both orders, so laying
  an array out in a buffer and reading the buffer with the same order gives the array.
\<close>

lemma unravel_c_valid: "k < prod_list s \<Longrightarrow> list_all2 (<) (unravel_c s k) s"
proof (induction s arbitrary: k)
  case Nil
  show ?case by simp
next
  case (Cons d ds)
  have pos: "0 < prod_list ds" using Cons.prems by (cases "prod_list ds = 0") auto
  have "k div prod_list ds < d"
    using Cons.prems pos by (simp add: less_mult_imp_div_less mult.commute)
  moreover have "k mod prod_list ds < prod_list ds" using pos by simp
  ultimately show ?case using Cons.IH by simp
qed


lemma ravel_c_unravel_c: "k < prod_list s \<Longrightarrow> ravel_c s (unravel_c s k) = k"
proof (induction s arbitrary: k)
  case Nil
  then show ?case by simp
next
  case (Cons d ds)
  have pos: "0 < prod_list ds" using Cons.prems by (cases "prod_list ds = 0") auto
  have "ravel_c ds (unravel_c ds (k mod prod_list ds)) = k mod prod_list ds"
    using Cons.IH pos by simp
  then show ?case by simp
qed

lemma ravel_f_bound: "list_all2 (<) idx s \<Longrightarrow> ravel_f s idx < prod_list s"
proof (induction s arbitrary: idx)
  case Nil
  then show ?case by simp
next
  case (Cons d ds)
  then obtain i rest where idx: "idx = i # rest" and i: "i < d" and r: "list_all2 (<) rest ds"
    by (auto simp: list_all2_Cons2)
  have "ravel_f ds rest < prod_list ds" using Cons.IH r by simp
  then have "Suc (ravel_f ds rest) \<le> prod_list ds" by simp
  then have "d * Suc (ravel_f ds rest) \<le> d * prod_list ds" by (rule mult_le_mono2)
  moreover have "i + d * ravel_f ds rest < d * Suc (ravel_f ds rest)" using i by simp
  ultimately show ?case by (simp add: idx)
qed

lemma unravel_f_ravel_f: "list_all2 (<) idx s \<Longrightarrow> unravel_f s (ravel_f s idx) = idx"
proof (induction s arbitrary: idx)
  case Nil
  then show ?case by simp
next
  case (Cons d ds)
  then obtain i rest where idx: "idx = i # rest" and i: "i < d" and r: "list_all2 (<) rest ds"
    by (auto simp: list_all2_Cons2)
  have "unravel_f ds (ravel_f ds rest) = rest" using Cons.IH r by simp
  then show ?case using i by (simp add: idx)
qed

lemma mem_index_bound: "k < prod_list s \<Longrightarrow> mem_index l s k < prod_list s"
  by (cases l) (simp_all add: ravel_f_bound unravel_c_valid)

lemma logical_mem_index: "k < prod_list s \<Longrightarrow> logical_index l s (mem_index l s k) = k"
  by (cases l) (simp_all add: unravel_f_ravel_f unravel_c_valid ravel_c_unravel_c)

lemma from_to_buffer:
  assumes "length xs = prod_list s"
  shows "from_buffer l s (to_buffer l s xs) = xs"
proof (rule nth_equalityI)
  show "length (from_buffer l s (to_buffer l s xs)) = length xs"
    by (simp add: from_buffer_def to_buffer_def)
next
  fix k assume "k < length (from_buffer l s (to_buffer l s xs))"
  then have k: "k < prod_list s" using assms by (simp add: from_buffer_def to_buffer_def)
  then have "mem_index l s k < length xs" using assms by (simp add: mem_index_bound)
  then show "from_buffer l s (to_buffer l s xs) ! k = xs ! k"
    using k assms by (simp add: from_buffer_def to_buffer_def logical_mem_index)
qed

lemma to_buffer_C: "to_buffer C_contiguous s xs = xs"
  by (simp add: to_buffer_def map_nth)

lemma from_buffer_C: "from_buffer C_contiguous s xs = xs"
  by (simp add: from_buffer_def map_nth)

lemma to_buffer_F_22: "to_buffer F_contiguous [2, 2] [a, b, c, d] = [a, c, b, d]"
  by (simp add: to_buffer_def upt_conv_Cons)

section \<open>Memory lemmas\<close>

lemma length_read_bytes: "length (read_bytes m p n) = n"
  by (simp add: read_bytes_def)

lemma write_read_bytes:
  "write_bytes m d (read_bytes m' s n) q = (if d \<le> q \<and> q < d + n then m' (s + (q - d)) else m q)"
  by (auto simp: write_bytes_def read_bytes_def)

lemma ld32_st32_same: "ld32 (st32 m p w) p = w"
  unfolding ld32_def st32_def
  apply (rule bit_word_eqI)
  subgoal for n
    by (cases "n < 8"; cases "n < 16"; cases "n < 24") (auto simp: bit_simps)
  done

lemma st32_other: "q < p \<or> p + 4 \<le> q \<Longrightarrow> st32 m p w q = m q"
  by (auto simp: st32_def)

lemma ld32_st32_other: "q + 4 \<le> p \<or> p + 4 \<le> q \<Longrightarrow> ld32 (st32 m p w) q = ld32 m q"
  by (auto simp: ld32_def st32_other)

lemma ld32_cong:
  "(\<And>j. j < 4 \<Longrightarrow> m (p + j) = m' (p' + j)) \<Longrightarrow> ld32 m p = ld32 m' p'"
proof -
  assume h: "\<And>j. j < 4 \<Longrightarrow> m (p + j) = m' (p' + j)"
  have "m p = m' p'" using h [of 0] by simp
  moreover have "m (p + 1) = m' (p' + 1)" using h [of 1] by simp
  moreover have "m (p + 2) = m' (p' + 2)" using h [of 2] by simp
  moreover have "m (p + 3) = m' (p' + 3)" using h [of 3] by simp
  ultimately show ?thesis by (simp add: ld32_def)
qed

lemma memcpy_htod_below: "q < p \<Longrightarrow> memcpy_htod p ws m q = m q"
  by (induction ws arbitrary: p m) (auto simp: st32_other)

lemma ld32_memcpy_htod_below: "q + 4 \<le> p \<Longrightarrow> ld32 (memcpy_htod p ws m) q = ld32 m q"
  by (rule ld32_cong) (simp add: memcpy_htod_below)

lemma memcpy_dtoh_Suc:
  "memcpy_dtoh p (Suc n) m = ld32 m p # memcpy_dtoh (p + 4) n m"
proof -
  have "[0..<Suc n] = 0 # map Suc [0..<n]"
    by (simp add: upt_conv_Cons map_Suc_upt del: upt_Suc)
  then show ?thesis
    by (simp add: memcpy_dtoh_def comp_def add.assoc del: upt_Suc)
qed

lemma dtoh_htod: "memcpy_dtoh p (length ws) (memcpy_htod p ws m) = ws"
proof (induction ws arbitrary: p m)
  case Nil
  show ?case by (simp add: memcpy_dtoh_def)
next
  case (Cons w ws)
  have "ld32 (memcpy_htod (p + 4) ws (st32 m p w)) p = w"
    by (simp add: ld32_memcpy_htod_below ld32_st32_same)
  then show ?case
    using Cons.IH [of "p + 4" "st32 m p w"] by (simp add: memcpy_dtoh_Suc)
qed

lemma gpu_get_gpu_set:
  assumes "shape mem = nd_shape ary" and "layout mem = nd_layout ary"
      and "length (nd_data ary) = prod_list (nd_shape ary)"
  shows "gpu_get mem (gpu_set mem ary m) = ary"
proof -
  have "gpu_size mem = length (host_buffer ary)"
    using assms by (simp add: gpu_size_def host_buffer_def to_buffer_def)
  then have "memcpy_dtoh (gpudata mem) (gpu_size mem) (gpu_set mem ary m) = host_buffer ary"
    by (simp add: gpu_set_def dtoh_htod)
  then show ?thesis
    using assms by (simp add: gpu_get_def host_buffer_def from_to_buffer)
qed

section \<open>Kernel launches\<close>

lemma launch_Suc:
  "launch (Suc n) thread m = st32 (launch n thread m) (fst (thread n)) (snd (thread n))"
  by (simp add: launch_def)

text \<open>A launch leaves alone every address that no thread's cell covers.\<close>

lemma launch_frame:
  "(\<And>i. i < n \<Longrightarrow> q < fst (thread i) \<or> fst (thread i) + 4 \<le> q) \<Longrightarrow> launch n thread m q = m q"
proof (induction n)
  case 0
  show ?case by (simp add: launch_def)
next
  case (Suc n)
  have "launch n thread m q = m q" using Suc by simp
  moreover have "q < fst (thread n) \<or> fst (thread n) + 4 \<le> q" using Suc.prems [of n] by simp
  ultimately show ?case by (simp add: launch_Suc st32_other)
qed

text \<open>When thread \<open>j\<close> writes cell \<open>j\<close> of a buffer, cell \<open>i\<close> ends with thread \<open>i\<close>'s value.\<close>

lemma launch_cell:
  "(\<And>j. j < n \<Longrightarrow> fst (thread j) = base + 4 * j) \<Longrightarrow> i < n \<Longrightarrow>
   ld32 (launch n thread m) (base + 4 * i) = snd (thread i)"
proof (induction n)
  case 0
  then show ?case by simp
next
  case (Suc n)
  have a: "fst (thread n) = base + 4 * n" using Suc.prems(1) [of n] by simp
  show ?case
  proof (cases "i = n")
    case True
    then show ?thesis by (simp add: launch_Suc a ld32_st32_same)
  next
    case False
    then have "i < n" using Suc.prems(2) by simp
    then have "ld32 (launch n thread m) (base + 4 * i) = snd (thread i)"
      using Suc.IH Suc.prems(1) by simp
    moreover have "base + 4 * i + 4 \<le> base + 4 * n" using \<open>i < n\<close> by simp
    ultimately show ?thesis by (simp add: launch_Suc a ld32_st32_other)
  qed
qed

lemma launch_out_frame:
  assumes "n \<le> gpu_size out" and "q \<notin> extent out"
  shows "launch n (\<lambda>i. (cell out i, f i)) m q = m q"
proof (rule launch_frame)
  fix i assume "i < n"
  then have "4 * i + 4 \<le> 4 * gpu_size out" using assms(1) by simp
  then show "q < fst (cell out i, f i) \<or> fst (cell out i, f i) + 4 \<le> q"
    using assms(2) by (auto simp: extent_def nbytes_def cell_def itemsize_def)
qed

lemma launch_out_elt:
  "i < n \<Longrightarrow> elt (launch n (\<lambda>i. (cell out i, f i)) m) out i = f i"
  using launch_cell [of n "\<lambda>i. (cell out i, f i)" "gpudata out" i m]
  by (simp add: elt_def cell_def itemsize_def)

lemmas kernel_defs =
  mult_tt_def mult_add_tt_def add_tt_def subtract_tt_def divide_tt_def clip_t_def
  sigmoid_def sigmoid_deriv_def tanh_def tanh_deriv_def rel_def rel_deriv_def
  mult_kernel_def mult_add_kernel_def add_mm_kernel_def subtract_mm_kernel_def div_kernel_def
  clip_kernel_def sigmoid_kernel_def sigmoid_deriv_kernel_def tanh_kernel_def
  tanh_deriv_kernel_def rel_kernel_def rel_deriv_kernel_def

lemma run_frame:
  "threads c \<le> gpu_size (out_buf c) \<Longrightarrow> q \<notin> extent (out_buf c) \<Longrightarrow> run u c m q = m q"
  by (cases c) (simp_all add: kernel_defs launch_out_frame)

section \<open>float32 lemmas\<close>

lemma bitlen_0 [simp]: "bitlen 0 = 0"
  by (simp add: bitlen.simps)

lemma bitlen_1 [simp]: "bitlen (Suc 0) = 1"
  by (simp add: bitlen.simps)

lemma bitlen_One [simp]: "bitlen (numeral Num.One) = 1"
  by (simp add: bitlen.simps)

lemma bitlen_Bit0 [simp]: "bitlen (numeral (Num.Bit0 k)) = Suc (bitlen (numeral k))"
  by (subst bitlen.simps) simp

lemma bitlen_Bit1 [simp]: "bitlen (numeral (Num.Bit1 k)) = Suc (bitlen (numeral k))"
  by (subst bitlen.simps) simp

lemma float_of_nat_1: "float_of_nat (Suc 0) = 0x3F800000"
  by (simp add: float_of_nat_def)

lemma float_of_nat_2: "float_of_nat 2 = 0x40000000"
  by (simp add: float_of_nat_def)

text \<open>The conversion rounds to nearest, ties to even, and can round up to a power of two.\<close>

lemma float_of_nat_rounds:
  "float_of_nat 16777216 = 0x4B800000" "float_of_nat 16777217 = 0x4B800000"
  "float_of_nat 16777219 = 0x4B800002" "float_of_nat 4294967295 = 0x4F800000"
  by (simp_all add: float_of_nat_def Let_def)

lemma float_of_nat_3: "float_of_nat 3 = 0x40400000"
  by (simp add: float_of_nat_def)

lemma float_of_nat_4: "float_of_nat 4 = 0x40800000"
  by (simp add: float_of_nat_def)

section \<open>Minimum and maximum\<close>

text \<open>
  \<open>ford\<close> tells any two patterns apart, and on patterns that are not NaNs the device's
  maximum and minimum are the maximum and minimum in that order.
\<close>

lemma fkey_sign: "bit w 31 \<Longrightarrow> fkey w \<le> 0" "\<not> bit w 31 \<Longrightarrow> 0 \<le> fkey w"
  by (simp_all add: fkey_def)

lemma ford_mono: "fkey x < fkey y \<Longrightarrow> ford x < ford y"
  using fkey_sign [of x] fkey_sign [of y] by (auto simp: ford_def)

lemma ford_fkey: "ford x < ford y \<Longrightarrow> fkey x \<le> fkey y"
  using fkey_sign [of x] fkey_sign [of y] by (auto simp: ford_def split: if_splits)

lemma ford_sign: "ford w < 0 \<longleftrightarrow> bit w 31"
  using fkey_sign [of w] by (auto simp: ford_def)

lemma magnitude_mask: "(w :: float32) AND 0x7FFFFFFF = take_bit 31 w"
proof -
  have "(0x7FFFFFFF :: float32) = mask 31" by (simp add: mask_eq_exp_minus_1)
  then show ?thesis by (simp add: take_bit_eq_mask)
qed

lemma ford_inj:
  assumes "ford x = ford y"
  shows "x = y"
proof -
  have s: "bit x 31 \<longleftrightarrow> bit y 31" using assms ford_sign [of x] ford_sign [of y] by simp
  then have "uint (x AND 0x7FFFFFFF) = uint (y AND 0x7FFFFFFF)"
    using assms by (auto simp: ford_def fkey_def split: if_splits)
  then have "x AND 0x7FFFFFFF = y AND 0x7FFFFFFF" by (simp only: word_uint_eq_iff)
  then have t: "take_bit 31 x = take_bit 31 y" by (simp only: magnitude_mask)
  show ?thesis
  proof (rule bit_word_eqI)
    fix n assume "n < LENGTH(32)"
    then have n: "n < 31 \<or> n = 31" by auto
    have "bit (take_bit 31 x) n = bit (take_bit 31 y) n" using t by simp
    then have "n < 31 \<Longrightarrow> bit x n = bit y n" by (simp add: bit_simps)
    then show "bit x n = bit y n" using n s by blast
  qed
qed

lemma fmaxf_ford:
  "\<not> is_nan x \<Longrightarrow> \<not> is_nan y \<Longrightarrow> ford (fmaxf u x y) = max (ford x) (ford y)"
  by (simp add: fmaxf_def f_below_def max_def)

lemma fminf_ford:
  "\<not> is_nan x \<Longrightarrow> \<not> is_nan y \<Longrightarrow> ford (fminf u x y) = min (ford x) (ford y)"
  by (simp add: fminf_def f_below_def min_def)

lemma fmaxf_value:
  assumes "\<not> is_nan x" and "\<not> is_nan y"
  shows "fkey (fmaxf u x y) = max (fkey x) (fkey y)" and "\<not> is_nan (fmaxf u x y)"
    and "fmaxf u x y = x \<or> fmaxf u x y = y"
proof -
  have a: "ford x < ford y \<longrightarrow> fkey x \<le> fkey y" using ford_fkey [of x y] by blast
  have b: "\<not> ford x < ford y \<longrightarrow> fkey y \<le> fkey x" using ford_mono [of x y] by fastforce
  show "fkey (fmaxf u x y) = max (fkey x) (fkey y)"
    using assms a b by (auto simp: fmaxf_def f_below_def max_def)
  show "\<not> is_nan (fmaxf u x y)" using assms by (simp add: fmaxf_def)
  show "fmaxf u x y = x \<or> fmaxf u x y = y" using assms by (simp add: fmaxf_def)
qed

lemma fminf_value:
  assumes "\<not> is_nan x" and "\<not> is_nan y"
  shows "fkey (fminf u x y) = min (fkey x) (fkey y)" and "\<not> is_nan (fminf u x y)"
    and "fminf u x y = x \<or> fminf u x y = y"
proof -
  have a: "ford y < ford x \<longrightarrow> fkey y \<le> fkey x" using ford_fkey [of y x] by blast
  have b: "\<not> ford y < ford x \<longrightarrow> fkey x \<le> fkey y" using ford_mono [of y x] by fastforce
  show "fkey (fminf u x y) = min (fkey x) (fkey y)"
    using assms a b by (auto simp: fminf_def f_below_def min_def)
  show "\<not> is_nan (fminf u x y)" using assms by (simp add: fminf_def)
  show "fminf u x y = x \<or> fminf u x y = y" using assms by (simp add: fminf_def)
qed

lemma clamp_value:
  assumes "\<not> is_nan x" and "\<not> is_nan lo" and "\<not> is_nan hi"
  shows "fkey (fminf u (fmaxf u x lo) hi) = min (max (fkey x) (fkey lo)) (fkey hi)"
    and "\<not> is_nan (fminf u (fmaxf u x lo) hi)"
    and "fminf u (fmaxf u x lo) hi \<in> {x, lo, hi}"
    and "ford (fminf u (fmaxf u x lo) hi) = min (max (ford x) (ford lo)) (ford hi)"
  using assms fmaxf_value [of x lo u] fminf_value [of "fmaxf u x lo" hi u]
    fmaxf_ford [of x lo u] fminf_ford [of "fmaxf u x lo" hi u] by auto

lemma clamp_nan:
  assumes "is_nan x" and "\<not> is_nan lo" and "\<not> is_nan hi"
  shows "fkey (fminf u (fmaxf u x lo) hi) = min (fkey lo) (fkey hi)"
    and "\<not> is_nan (fminf u (fmaxf u x lo) hi)"
    and "fminf u (fmaxf u x lo) hi \<in> {lo, hi}"
    and "ford (fminf u (fmaxf u x lo) hi) = min (ford lo) (ford hi)"
proof -
  have "fmaxf u x lo = lo" using assms by (simp add: fmaxf_def)
  then show "fkey (fminf u (fmaxf u x lo) hi) = min (fkey lo) (fkey hi)"
    and "\<not> is_nan (fminf u (fmaxf u x lo) hi)"
    and "fminf u (fmaxf u x lo) hi \<in> {lo, hi}"
    and "ford (fminf u (fmaxf u x lo) hi) = min (ford lo) (ford hi)"
    using assms fminf_value [of lo hi u] fminf_ford [of lo hi u] by auto
qed

lemma clamp_upper_wins: "f_lt hi lo \<Longrightarrow> fminf u (fmaxf u x lo) hi = hi"
proof -
  assume h: "f_lt hi lo"
  then have n: "\<not> is_nan hi" "\<not> is_nan lo" and k: "fkey hi < fkey lo" by (auto simp: f_lt_def)
  let ?t = "fmaxf u x lo"
  have t: "\<not> is_nan ?t \<and> fkey lo \<le> fkey ?t"
  proof (cases "is_nan x")
    case True
    then show ?thesis using n by (simp add: fmaxf_def)
  next
    case False
    then show ?thesis using n fmaxf_value [of x lo u] by simp
  qed
  then have "ford hi < ford ?t" using k by (intro ford_mono) simp
  then show ?thesis using t n by (simp add: fminf_def f_below_def)
qed

lemma ford_pos: "\<not> bit w 31 \<Longrightarrow> ford w = uint w"
proof -
  assume h: "\<not> bit w 31"
  have "take_bit 31 w = w"
  proof (rule bit_word_eqI)
    fix n assume "n < LENGTH(32)"
    then have "n < 31 \<or> n = 31" by auto
    then show "bit (take_bit 31 w) n = bit w n" using h by (auto simp: bit_simps)
  qed
  then show ?thesis using h by (simp add: ford_def fkey_def magnitude_mask)
qed

section \<open>Buffers\<close>

lemma memcpy_dtoh_cong:
  assumes "\<And>q. q \<in> extent b \<Longrightarrow> m1 q = m q"
  shows "memcpy_dtoh (gpudata b) (gpu_size b) m1 = memcpy_dtoh (gpudata b) (gpu_size b) m"
proof -
  have "ld32 m1 (gpudata b + 4 * i) = ld32 m (gpudata b + 4 * i)" if "i < gpu_size b" for i
  proof (rule ld32_cong)
    fix j :: nat assume "j < 4"
    then have "gpudata b + 4 * i + j \<in> extent b"
      using that by (auto simp: extent_def nbytes_def itemsize_def)
    then show "m1 (gpudata b + 4 * i + j) = m (gpudata b + 4 * i + j)" by (rule assms)
  qed
  then show ?thesis by (simp add: memcpy_dtoh_def)
qed

lemma length_host_buffer: "length (host_buffer ary) = length (nd_data ary)"
  by (simp add: host_buffer_def to_buffer_def)

lemma gpu_get_gpu_set_data:
  "gpu_size mem = length (host_buffer ary) \<Longrightarrow>
   nd_data (gpu_get mem (gpu_set mem ary m)) = from_buffer (layout mem) (shape mem) (host_buffer ary)"
  by (simp add: gpu_get_def gpu_set_def dtoh_htod)

lemma elt_single: "elt (memcpy_htod p [w] m) \<lparr>gpudata = p, shape = s, layout = l\<rparr> 0 = w"
  by (simp add: elt_def cell_def ld32_st32_same)

section \<open>Reduction\<close>

text \<open>
  Claim C2. The first branch of \<^verbatim>\<open>sum_t\<close> does not always write the reduction into
  \<open>out\<close>. With fewer than three dimensions and axis 0 or 1 the method calls
  \<^verbatim>\<open>cumisc.sum(a, axis, out)\<close> and drops what the call returns. For an array of at
  most one dimension the vendor's \<^verbatim>\<open>sum\<close> does not use \<open>out\<close>: it returns a new
  array that holds the sum and writes no byte of \<open>out\<close>. So for every vendor that
  answers this call with some array and a memory in which the bytes of \<open>out\<close> are as
  they were, \<^verbatim>\<open>sum_t\<close> returns normally and \<open>out\<close> reads back as it did before the
  call: a silent no-op, where the claim has the reduction written into \<open>out\<close>.
\<close>

theorem sum_t_rank1_leaves_out:
  assumes "length (shape a) \<le> 1" and "k = 0 \<or> k = 1"
      and "misc_sum sk a (Some k) (Some out) m = Inr (r, m1)"
      and "\<forall>q \<in> extent out. m1 q = m q"
  shows "\<exists>m'. sum_t sk a (Some k) out m = Inr m' \<and> gpu_get out m' = gpu_get out m"
proof -
  have "sum_t sk a (Some k) out m = Inr m1" using assms(1-3) by (auto simp: sum_t_def)
  moreover have "gpu_get out m1 = gpu_get out m"
    using memcpy_dtoh_cong [of out m1 m] assms(4) by (simp add: gpu_get_def)
  ultimately show ?thesis by blast
qed

text \<open>
  The array \<open>[6.0]\<close> of shape \<open>(1,)\<close> with axis 0 and a scalar \<open>out\<close> that holds
  \<open>0.0\<close>: the vendor puts the sum, the one element, in a new scalar at address 64 and
  returns it; \<^verbatim>\<open>sum_t\<close> succeeds and \<open>out\<close> still holds \<open>0.0\<close>.
\<close>

theorem sum_t_rank1_leaves_out_witness:
  "length (shape \<lparr>gpudata = 0, shape = [1], layout = C_contiguous\<rparr>) \<le> 1
   \<and> misc_sum \<lparr>misc_sum = \<lambda>x axis out m. Inr (\<lparr>gpudata = 64, shape = [], layout = C_contiguous\<rparr>,
                                                st32 m 64 (ld32 m (gpudata x))),
               misc_mult_matvec = \<lambda>x v out m. Inr m\<rparr>
        \<lparr>gpudata = 0, shape = [1], layout = C_contiguous\<rparr> (Some 0)
        (Some \<lparr>gpudata = 32, shape = [], layout = C_contiguous\<rparr>) (memcpy_htod 0 [0x40C00000] (\<lambda>_. 0))
       = Inr (\<lparr>gpudata = 64, shape = [], layout = C_contiguous\<rparr>,
              st32 (memcpy_htod 0 [0x40C00000] (\<lambda>_. 0)) 64 0x40C00000)
   \<and> (\<exists>m'. sum_t \<lparr>misc_sum = \<lambda>x axis out m. Inr (\<lparr>gpudata = 64, shape = [], layout = C_contiguous\<rparr>,
                                                st32 m 64 (ld32 m (gpudata x))),
               misc_mult_matvec = \<lambda>x v out m. Inr m\<rparr>
        \<lparr>gpudata = 0, shape = [1], layout = C_contiguous\<rparr> (Some 0)
        \<lparr>gpudata = 32, shape = [], layout = C_contiguous\<rparr> (memcpy_htod 0 [0x40C00000] (\<lambda>_. 0)) = Inr m'
        \<and> gpu_get \<lparr>gpudata = 32, shape = [], layout = C_contiguous\<rparr> m'
            = \<lparr>nd_shape = [], nd_data = [0x00000000], nd_layout = C_contiguous\<rparr>)"
proof -
  let ?a = "\<lparr>gpudata = 0, shape = [1], layout = C_contiguous\<rparr>"
  let ?out = "\<lparr>gpudata = 32, shape = [], layout = C_contiguous\<rparr>"
  let ?r = "\<lparr>gpudata = 64, shape = [], layout = C_contiguous\<rparr>"
  let ?sk = "\<lparr>misc_sum = \<lambda>x axis out m. Inr (?r, st32 m 64 (ld32 m (gpudata x))),
             misc_mult_matvec = \<lambda>x v out m. Inr m\<rparr>"
  let ?m = "memcpy_htod 0 [0x40C00000] (\<lambda>_. 0)"
  let ?m1 = "st32 ?m 64 0x40C00000"
  have rk: "length (shape ?a) \<le> 1" by simp
  have vs: "misc_sum ?sk ?a (Some 0) (Some ?out) ?m = Inr (?r, ?m1)"
    by (simp add: ld32_st32_same)
  have fr: "\<forall>q \<in> extent ?out. ?m1 q = ?m q"
    by (auto simp: extent_def nbytes_def gpu_size_def itemsize_def st32_other)
  have before: "gpu_get ?out ?m = \<lparr>nd_shape = [], nd_data = [0x00000000], nd_layout = C_contiguous\<rparr>"
    by (simp add: gpu_get_def gpu_size_def memcpy_dtoh_def from_buffer_C ld32_st32_other)
       (simp add: ld32_def)
  have "\<exists>m'. sum_t ?sk ?a (Some 0) ?out ?m = Inr m' \<and> gpu_get ?out m' = gpu_get ?out ?m"
    by (rule sum_t_rank1_leaves_out [OF rk _ vs fr]) simp
  then have "\<exists>m'. sum_t ?sk ?a (Some 0) ?out ?m = Inr m'
      \<and> gpu_get ?out m' = \<lparr>nd_shape = [], nd_data = [0x00000000], nd_layout = C_contiguous\<rparr>"
    unfolding before .
  then show ?thesis using rk vs by blast
qed

text \<open>
  The other two branches are what the claim says. With axis \<^verbatim>\<open>None\<close>, whatever the
  rank, the array the vendor returns is kept and copied into \<open>out\<close>; with any other
  integer axis or rank the call raises \<^verbatim>\<open>NotImplementedError\<close> and returns no memory.
\<close>

lemma sum_t_other_branches:
  "sum_t sk a None out m =
     (case misc_sum sk a None None m of Inl e \<Rightarrow> Inl e | Inr (r, m1) \<Rightarrow> Inr (copy_to out r m1))"
  "\<not> (length (shape a) < 3 \<and> (k = 0 \<or> k = 1)) \<Longrightarrow> sum_t sk a (Some k) out m = Inl NotImplementedError"
  by (auto simp: sum_t_def)

section \<open>Backward convolution\<close>

text \<open>
  Claim C3. Every call of \<^verbatim>\<open>conv2d_backward_batch\<close> raises \<^verbatim>\<open>NameError\<close> for
  \<^verbatim>\<open>self\<close> at its third statement: by then it has created one tensor descriptor, which
  it never releases, and it has made no other library call. The three gradient calls and
  the releases are never reached.
\<close>

theorem conv2d_backward_batch_raises:
  "fst (conv2d_backward_batch n) = Some (NameError ''self'')
   \<and> events (snd (conv2d_backward_batch n)) = [Created TensorDescriptor n]"
  by (simp add: conv2d_backward_batch_def conv2d_backward_batch_body_def call_frame_def
      conv2d_backward_batch_params_def resolve_def module_globals_def builtins_def)

text \<open>
  Were \<^verbatim>\<open>self\<close> a parameter, as it is in \<^verbatim>\<open>conv2d_forward_batch\<close>, the body would
  create eight descriptors and then raise for \<^verbatim>\<open>outputs\<close>, a name the method never
  binds, before any gradient call and with no descriptor released.
\<close>

lemma conv2d_backward_batch_with_self:
  "fst (exec_body conv2d_backward_batch_body (call_frame (''self'' # conv2d_backward_batch_params) n))
     = Some (NameError ''outputs'')
   \<and> events (snd (exec_body conv2d_backward_batch_body
                    (call_frame (''self'' # conv2d_backward_batch_params) n)))
     = [Created TensorDescriptor n, Called ''cudnnSetTensor4dDescriptor'',
        Created TensorDescriptor (n + 1), Called ''cudnnSetTensor4dDescriptor'',
        Created TensorDescriptor (n + 2), Called ''cudnnSetTensor4dDescriptor'',
        Created FilterDescriptor (n + 3), Called ''cudnnSetFilter4dDescriptor'',
        Created FilterDescriptor (n + 4), Called ''cudnnSetFilter4dDescriptor'',
        Created TensorDescriptor (n + 5), Called ''cudnnSetTensor4dDescriptor'',
        Created TensorDescriptor (n + 6), Called ''cudnnSetTensor4dDescriptor'',
        Created ConvolutionDescriptor (n + 7), Called ''cudnnSetConvolution2dDescriptor'']"
  by (simp add: conv2d_backward_batch_body_def call_frame_def
      conv2d_backward_batch_params_def resolve_def module_globals_def builtins_def)

section \<open>Upload and readback\<close>

text \<open>
  Claim C4, with the condition on memory order that its last part needs.
  \<^verbatim>\<open>set_from_numpy(mem, arr)\<close> raises exactly when the two shapes differ, and what it
  raises is the \<^verbatim>\<open>AssertionError\<close> of its shape check; it raises before any transfer.
  When the shapes are equal it converts the array to float32 and copies the buffer of
  the converted array, in the host's memory order, to the address of \<open>mem\<close>: the
  device then holds that buffer element for element. Reading \<open>mem\<close> back gives the
  converted array when \<open>mem\<close> and the host array have the same memory order (for an
  array that has as many elements as its shape says).
\<close>

theorem set_from_numpy_shape_check:
  "((\<exists>e. set_from_numpy cast mem arr m = Inl e) \<longleftrightarrow> shape mem \<noteq> nd_shape arr)
   \<and> (shape mem \<noteq> nd_shape arr \<longrightarrow> set_from_numpy cast mem arr m = Inl AssertionError)
   \<and> (shape mem = nd_shape arr \<longrightarrow>
        (\<exists>m'. set_from_numpy cast mem arr m = Inr m'
           \<and> memcpy_dtoh (gpudata mem) (length (nd_data arr)) m' = host_buffer (astype cast arr)))
   \<and> (shape mem = nd_shape arr \<and> layout mem = nd_layout arr
        \<and> length (nd_data arr) = prod_list (nd_shape arr) \<longrightarrow>
        (\<exists>m'. set_from_numpy cast mem arr m = Inr m' \<and> gpu_get mem m' = astype cast arr))"
proof -
  have "gpu_get mem (gpu_set mem (astype cast arr) m) = astype cast arr"
    if "shape mem = nd_shape arr" and "layout mem = nd_layout arr"
      and "length (nd_data arr) = prod_list (nd_shape arr)"
    using that by (intro gpu_get_gpu_set) (simp_all add: astype_def)
  moreover have "memcpy_dtoh (gpudata mem) (length (nd_data arr)) (gpu_set mem (astype cast arr) m)
      = host_buffer (astype cast arr)"
    using dtoh_htod [of "gpudata mem" "host_buffer (astype cast arr)" m]
    by (simp add: gpu_set_def length_host_buffer astype_def)
  ultimately show ?thesis by (auto simp: set_from_numpy_def)
qed

theorem set_from_numpy_shape_check_witness:
  "shape \<lparr>gpudata = 0, shape = [2], layout = C_contiguous\<rparr>
     = nd_shape \<lparr>nd_shape = [2], nd_data = [1, 2 :: nat], nd_layout = C_contiguous\<rparr>
   \<and> layout \<lparr>gpudata = 0, shape = [2], layout = C_contiguous\<rparr>
     = nd_layout \<lparr>nd_shape = [2], nd_data = [1, 2 :: nat], nd_layout = C_contiguous\<rparr>
   \<and> length (nd_data \<lparr>nd_shape = [2], nd_data = [1, 2 :: nat], nd_layout = C_contiguous\<rparr>) = prod_list [2]
   \<and> (\<exists>m'. set_from_numpy float_of_nat \<lparr>gpudata = 0, shape = [2], layout = C_contiguous\<rparr>
               \<lparr>nd_shape = [2], nd_data = [1, 2 :: nat], nd_layout = C_contiguous\<rparr> (\<lambda>_. 0) = Inr m'
          \<and> gpu_get \<lparr>gpudata = 0, shape = [2], layout = C_contiguous\<rparr> m'
              = \<lparr>nd_shape = [2], nd_data = [0x3F800000, 0x40000000], nd_layout = C_contiguous\<rparr>)
   \<and> shape \<lparr>gpudata = 0, shape = [3], layout = C_contiguous\<rparr>
     \<noteq> nd_shape \<lparr>nd_shape = [2], nd_data = [1, 2 :: nat], nd_layout = C_contiguous\<rparr>
   \<and> set_from_numpy float_of_nat \<lparr>gpudata = 0, shape = [3], layout = C_contiguous\<rparr>
               \<lparr>nd_shape = [2], nd_data = [1, 2 :: nat], nd_layout = C_contiguous\<rparr> (\<lambda>_. 0)
       = Inl AssertionError"
proof -
  let ?mem = "\<lparr>gpudata = 0, shape = [2], layout = C_contiguous\<rparr>"
  let ?bad = "\<lparr>gpudata = 0, shape = [3], layout = C_contiguous\<rparr>"
  let ?arr = "\<lparr>nd_shape = [2], nd_data = [1, 2 :: nat], nd_layout = C_contiguous\<rparr>"
  have sh: "shape ?mem = nd_shape ?arr" by simp
  have lay: "layout ?mem = nd_layout ?arr" by simp
  have len: "length (nd_data ?arr) = prod_list [2]" by simp
  have len': "length (nd_data ?arr) = prod_list (nd_shape ?arr)" by simp
  have ne: "shape ?bad \<noteq> nd_shape ?arr" by simp
  have cast: "astype float_of_nat ?arr
      = \<lparr>nd_shape = [2], nd_data = [0x3F800000, 0x40000000], nd_layout = C_contiguous\<rparr>"
    by (simp add: astype_def float_of_nat_1 float_of_nat_2)
  have "\<exists>m'. set_from_numpy float_of_nat ?mem ?arr (\<lambda>_. 0) = Inr m'
          \<and> gpu_get ?mem m' = astype float_of_nat ?arr"
    using set_from_numpy_shape_check [of float_of_nat ?mem ?arr "\<lambda>_. 0"] sh lay len' by blast
  then have ok: "\<exists>m'. set_from_numpy float_of_nat ?mem ?arr (\<lambda>_. 0) = Inr m'
          \<and> gpu_get ?mem m'
              = \<lparr>nd_shape = [2], nd_data = [0x3F800000, 0x40000000], nd_layout = C_contiguous\<rparr>"
    unfolding cast .
  have err: "set_from_numpy float_of_nat ?bad ?arr (\<lambda>_. 0) = Inl AssertionError"
    using set_from_numpy_shape_check [of float_of_nat ?bad ?arr "\<lambda>_. 0"] ne by blast
  show ?thesis using sh lay len ok ne err by blast
qed

text \<open>
  With equal shapes and different memory orders the device does not hold the converted
  array: the Fortran-ordered \<open>[[1, 2], [3, 4]]\<close> set into a row-major buffer of shape
  \<open>(2, 2)\<close> reads back as \<open>[[1, 3], [2, 4]]\<close>.
\<close>

theorem set_from_numpy_fortran_counterexample:
  "shape \<lparr>gpudata = 0, shape = [2, 2], layout = C_contiguous\<rparr>
     = nd_shape \<lparr>nd_shape = [2, 2], nd_data = [1, 2, 3, 4 :: nat], nd_layout = F_contiguous\<rparr>
   \<and> nd_data (astype float_of_nat
        \<lparr>nd_shape = [2, 2], nd_data = [1, 2, 3, 4 :: nat], nd_layout = F_contiguous\<rparr>)
       = [0x3F800000, 0x40000000, 0x40400000, 0x40800000]
   \<and> (\<exists>m'. set_from_numpy float_of_nat \<lparr>gpudata = 0, shape = [2, 2], layout = C_contiguous\<rparr>
               \<lparr>nd_shape = [2, 2], nd_data = [1, 2, 3, 4 :: nat], nd_layout = F_contiguous\<rparr> (\<lambda>_. 0)
             = Inr m'
          \<and> nd_data (gpu_get \<lparr>gpudata = 0, shape = [2, 2], layout = C_contiguous\<rparr> m')
              = [0x3F800000, 0x40400000, 0x40000000, 0x40800000])"
proof -
  let ?mem = "\<lparr>gpudata = 0, shape = [2, 2], layout = C_contiguous\<rparr>"
  let ?arr = "\<lparr>nd_shape = [2, 2], nd_data = [1, 2, 3, 4 :: nat], nd_layout = F_contiguous\<rparr>"
  let ?buf = "[0x3F800000, 0x40400000, 0x40000000, 0x40800000] :: float32 list"
  have sh: "shape ?mem = nd_shape ?arr" by simp
  have data: "nd_data (astype float_of_nat ?arr) = [0x3F800000, 0x40000000, 0x40400000, 0x40800000]"
    by (simp add: astype_def float_of_nat_1 float_of_nat_2 float_of_nat_3 float_of_nat_4)
  have buf: "host_buffer (astype float_of_nat ?arr) = ?buf"
    by (simp add: host_buffer_def astype_def to_buffer_def upt_conv_Cons
        float_of_nat_1 float_of_nat_2 float_of_nat_3 float_of_nat_4)
  have sz: "gpu_size ?mem = length (host_buffer (astype float_of_nat ?arr))"
    unfolding buf by (simp add: gpu_size_def)
  have "nd_data (gpu_get ?mem (gpu_set ?mem (astype float_of_nat ?arr) (\<lambda>_. 0)))
      = from_buffer (layout ?mem) (shape ?mem) (host_buffer (astype float_of_nat ?arr))"
    by (rule gpu_get_gpu_set_data [OF sz])
  also have "\<dots> = ?buf"
    unfolding buf by (simp add: from_buffer_C)
  finally have "nd_data (gpu_get ?mem (gpu_set ?mem (astype float_of_nat ?arr) (\<lambda>_. 0))) = ?buf" .
  moreover have "set_from_numpy float_of_nat ?mem ?arr (\<lambda>_. 0)
      = Inr (gpu_set ?mem (astype float_of_nat ?arr) (\<lambda>_. 0))"
    by (simp add: set_from_numpy_def)
  ultimately show ?thesis using sh data by blast
qed

text \<open>
  Claim C5. For a host array \<open>x\<close> that has as many elements as its shape says,
  \<^verbatim>\<open>create_from_numpy(x)\<close> followed by \<^verbatim>\<open>get_numpy_copy\<close> of the buffer it returns
  gives \<open>x\<close> converted to float32: the same shape and, element for element, the same
  bit patterns, so equal values wherever the elements are finite. This holds at any
  address the allocator returns.
\<close>

theorem upload_readback_roundtrip:
  assumes "length (nd_data x) = prod_list (nd_shape x)"
      and "create_from_numpy cast p x m = (g, m')"
  shows "get_numpy_copy (GPUArray g) m' = Inr (astype cast x)"
proof -
  let ?ary = "astype cast x"
  have g: "g = \<lparr>gpudata = p, shape = nd_shape ?ary, layout = nd_layout ?ary\<rparr>"
    and m': "m' = gpu_set g ?ary m"
    using assms(2) by (auto simp: create_from_numpy_def to_gpu_def Let_def)
  have "gpu_get g (gpu_set g ?ary m) = ?ary"
    using assms(1) by (intro gpu_get_gpu_set) (simp_all add: g astype_def)
  then show ?thesis by (simp add: get_numpy_copy_def m')
qed

text \<open>
  A row-major vector and the Fortran-ordered \<open>[[1, 2], [3, 4]]\<close>: the buffer
  \<^verbatim>\<open>to_gpu\<close> returns has the memory order of the array it was given.
\<close>

theorem upload_readback_roundtrip_witness:
  "length (nd_data \<lparr>nd_shape = [2], nd_data = [1, 2 :: nat], nd_layout = C_contiguous\<rparr>) = prod_list [2]
   \<and> get_numpy_copy
        (GPUArray (fst (create_from_numpy float_of_nat 64
                          \<lparr>nd_shape = [2], nd_data = [1, 2 :: nat], nd_layout = C_contiguous\<rparr> (\<lambda>_. 0))))
        (snd (create_from_numpy float_of_nat 64
                          \<lparr>nd_shape = [2], nd_data = [1, 2 :: nat], nd_layout = C_contiguous\<rparr> (\<lambda>_. 0)))
     = Inr \<lparr>nd_shape = [2], nd_data = [0x3F800000, 0x40000000], nd_layout = C_contiguous\<rparr>
   \<and> length (nd_data \<lparr>nd_shape = [2, 2], nd_data = [1, 2, 3, 4 :: nat], nd_layout = F_contiguous\<rparr>)
       = prod_list [2, 2]
   \<and> get_numpy_copy
        (GPUArray (fst (create_from_numpy float_of_nat 64
            \<lparr>nd_shape = [2, 2], nd_data = [1, 2, 3, 4 :: nat], nd_layout = F_contiguous\<rparr> (\<lambda>_. 0))))
        (snd (create_from_numpy float_of_nat 64
            \<lparr>nd_shape = [2, 2], nd_data = [1, 2, 3, 4 :: nat], nd_layout = F_contiguous\<rparr> (\<lambda>_. 0)))
     = Inr \<lparr>nd_shape = [2, 2], nd_data = [0x3F800000, 0x40000000, 0x40400000, 0x40800000],
            nd_layout = F_contiguous\<rparr>"
proof -
  let ?x = "\<lparr>nd_shape = [2], nd_data = [1, 2 :: nat], nd_layout = C_contiguous\<rparr>"
  let ?r = "create_from_numpy float_of_nat 64 ?x (\<lambda>_. 0)"
  let ?y = "\<lparr>nd_shape = [2, 2], nd_data = [1, 2, 3, 4 :: nat], nd_layout = F_contiguous\<rparr>"
  let ?s = "create_from_numpy float_of_nat 64 ?y (\<lambda>_. 0)"
  have len: "length (nd_data ?x) = prod_list (nd_shape ?x)" by simp
  have leny: "length (nd_data ?y) = prod_list (nd_shape ?y)" by simp
  have cast: "astype float_of_nat ?x
      = \<lparr>nd_shape = [2], nd_data = [0x3F800000, 0x40000000], nd_layout = C_contiguous\<rparr>"
    by (simp add: astype_def float_of_nat_1 float_of_nat_2)
  have casty: "astype float_of_nat ?y
      = \<lparr>nd_shape = [2, 2], nd_data = [0x3F800000, 0x40000000, 0x40400000, 0x40800000],
         nd_layout = F_contiguous\<rparr>"
    by (simp add: astype_def float_of_nat_1 float_of_nat_2 float_of_nat_3 float_of_nat_4)
  have "get_numpy_copy (GPUArray (fst ?r)) (snd ?r) = Inr (astype float_of_nat ?x)"
    by (rule upload_readback_roundtrip [OF len]) simp
  moreover have "get_numpy_copy (GPUArray (fst ?s)) (snd ?s) = Inr (astype float_of_nat ?y)"
    by (rule upload_readback_roundtrip [OF leny]) simp
  ultimately show ?thesis unfolding cast casty by simp
qed

section \<open>Elementwise methods\<close>

text \<open>
  Claim C6. When \<open>m\<close> and \<open>v\<close> have the same shape, \<^verbatim>\<open>mult_mv(m, v, out)\<close> never
  reaches the vendor's broadcast and is \<^verbatim>\<open>mult_tt(m, v, out)\<close>: the same memory results,
  in which every element of \<open>out\<close> below the operands' size is the float product of the
  two operands' elements at that index.
\<close>

theorem mult_mv_equal_shape:
  assumes "shape m = shape v"
  shows "mult_mv sk u m v out mem = Inr (mult_tt u m v out mem)
       \<and> (\<forall>i. i < gpu_size m \<longrightarrow>
            elt (mult_tt u m v out mem) out i = fmul u (elt mem m i) (elt mem v i))"
  using assms by (simp add: mult_mv_def mult_tt_def mult_kernel_def launch_out_elt)

theorem mult_mv_equal_shape_witness:
  "shape \<lparr>gpudata = 0, shape = [1, 2], layout = C_contiguous\<rparr> = shape \<lparr>gpudata = 8, shape = [1, 2], layout = C_contiguous\<rparr>
   \<and> (\<forall>sk u. mult_mv sk u \<lparr>gpudata = 0, shape = [1, 2], layout = C_contiguous\<rparr> \<lparr>gpudata = 8, shape = [1, 2], layout = C_contiguous\<rparr>
                \<lparr>gpudata = 16, shape = [1, 2], layout = C_contiguous\<rparr> (\<lambda>_. 0)
             = Inr (mult_tt u \<lparr>gpudata = 0, shape = [1, 2], layout = C_contiguous\<rparr> \<lparr>gpudata = 8, shape = [1, 2], layout = C_contiguous\<rparr>
                \<lparr>gpudata = 16, shape = [1, 2], layout = C_contiguous\<rparr> (\<lambda>_. 0)))"
  using mult_mv_equal_shape [of "\<lparr>gpudata = 0, shape = [1, 2], layout = C_contiguous\<rparr>" "\<lparr>gpudata = 8, shape = [1, 2], layout = C_contiguous\<rparr>"]
  by simp



text \<open>
  Claim C8, with the size condition it needs. Take a call of \<^verbatim>\<open>mult_tt\<close>,
  \<^verbatim>\<open>mult_add_tt\<close>, \<^verbatim>\<open>add_tt\<close>, \<^verbatim>\<open>subtract_tt\<close>, \<^verbatim>\<open>divide_tt\<close>, \<^verbatim>\<open>clip_t\<close>,
  an activation or its derivative, in which the kernel's first array argument, which
  gives the number of threads, has no more elements than the output buffer. Then no
  address outside the output buffer changes, and every input buffer that shares no
  address with the output buffer holds after the call the bytes, hence the elements, it
  held before.
\<close>

theorem elementwise_frame:
  assumes "threads c \<le> gpu_size (out_buf c)"
  shows "(\<forall>q. q \<notin> extent (out_buf c) \<longrightarrow> run u c m q = m q)
       \<and> (\<forall>b \<in> set (in_bufs c). extent b \<inter> extent (out_buf c) = {} \<longrightarrow>
            (\<forall>q \<in> extent b. run u c m q = m q)
            \<and> memcpy_dtoh (gpudata b) (gpu_size b) (run u c m) = memcpy_dtoh (gpudata b) (gpu_size b) m)"
proof -
  have frame: "\<And>q. q \<notin> extent (out_buf c) \<Longrightarrow> run u c m q = m q"
    using assms by (rule run_frame)
  have "memcpy_dtoh (gpudata b) (gpu_size b) (run u c m) = memcpy_dtoh (gpudata b) (gpu_size b) m"
    if d: "extent b \<inter> extent (out_buf c) = {}" for b
  proof -
    have "ld32 (run u c m) (gpudata b + 4 * i) = ld32 m (gpudata b + 4 * i)" if "i < gpu_size b" for i
    proof (rule ld32_cong)
      fix j :: nat assume "j < 4"
      then have "gpudata b + 4 * i + j \<in> extent b"
        using that by (auto simp: extent_def nbytes_def itemsize_def)
      then have "gpudata b + 4 * i + j \<notin> extent (out_buf c)" using d by auto
      then show "run u c m (gpudata b + 4 * i + j) = m (gpudata b + 4 * i + j)" by (rule frame)
    qed
    then show ?thesis by (simp add: memcpy_dtoh_def)
  qed
  moreover have "\<forall>q \<in> extent b. run u c m q = m q" if "extent b \<inter> extent (out_buf c) = {}" for b
    using that frame by auto
  ultimately show ?thesis using frame by blast
qed

theorem elementwise_frame_witness:
  "threads (Mult_tt \<lparr>gpudata = 0, shape = [2], layout = C_contiguous\<rparr> \<lparr>gpudata = 8, shape = [2], layout = C_contiguous\<rparr> \<lparr>gpudata = 16, shape = [2], layout = C_contiguous\<rparr>)
     \<le> gpu_size (out_buf (Mult_tt \<lparr>gpudata = 0, shape = [2], layout = C_contiguous\<rparr> \<lparr>gpudata = 8, shape = [2], layout = C_contiguous\<rparr> \<lparr>gpudata = 16, shape = [2], layout = C_contiguous\<rparr>))
   \<and> extent \<lparr>gpudata = 8, shape = [2], layout = C_contiguous\<rparr> \<inter> extent \<lparr>gpudata = 16, shape = [2], layout = C_contiguous\<rparr> = {}
   \<and> (\<forall>u m. run u (Mult_tt \<lparr>gpudata = 0, shape = [2], layout = C_contiguous\<rparr> \<lparr>gpudata = 8, shape = [2], layout = C_contiguous\<rparr> \<lparr>gpudata = 16, shape = [2], layout = C_contiguous\<rparr>) m 11 = m 11)
   \<and> (\<forall>u m. memcpy_dtoh 8 2 (run u (Mult_tt \<lparr>gpudata = 0, shape = [2], layout = C_contiguous\<rparr> \<lparr>gpudata = 8, shape = [2], layout = C_contiguous\<rparr> \<lparr>gpudata = 16, shape = [2], layout = C_contiguous\<rparr>) m)
             = memcpy_dtoh 8 2 m)"
proof -
  let ?a = "\<lparr>gpudata = 0, shape = [2], layout = C_contiguous\<rparr>"
  let ?b = "\<lparr>gpudata = 8, shape = [2], layout = C_contiguous\<rparr>"
  let ?out = "\<lparr>gpudata = 16, shape = [2], layout = C_contiguous\<rparr>"
  let ?c = "Mult_tt ?a ?b ?out"
  have sz: "threads ?c \<le> gpu_size (out_buf ?c)" by (simp add: gpu_size_def)
  have dj: "extent ?b \<inter> extent ?out = {}"
    by (simp add: extent_def nbytes_def gpu_size_def itemsize_def)
  have inb: "?b \<in> set (in_bufs ?c)" by simp
  have q: "11 \<in> extent ?b" by (simp add: extent_def nbytes_def gpu_size_def itemsize_def)
  have "run u ?c m 11 = m 11 \<and> memcpy_dtoh 8 2 (run u ?c m) = memcpy_dtoh 8 2 m" for u m
  proof -
    have "(\<forall>q \<in> extent ?b. run u ?c m q = m q)
        \<and> memcpy_dtoh (gpudata ?b) (gpu_size ?b) (run u ?c m) = memcpy_dtoh (gpudata ?b) (gpu_size ?b) m"
      using elementwise_frame [OF sz, of u m] inb dj by (simp only: out_buf.simps) blast
    then show ?thesis using q by (simp add: gpu_size_def)
  qed
  then show ?thesis using sz dj by blast
qed

text \<open>
  Without the size condition an input that shares no address with the output can
  change. \<^verbatim>\<open>rel_deriv(x, y, dy, dx)\<close> with \<open>x\<close>, \<open>y\<close> and \<open>dy\<close> of three
  elements and \<open>dx\<close> of two, the four buffers pairwise apart: the kernel runs one
  thread for each element of \<open>x\<close>, thread 2 writes \<^verbatim>\<open>dx[2]\<close>, which is the address
  of \<^verbatim>\<open>x[0]\<close>, and \<^verbatim>\<open>x[0]\<close> goes from \<open>2.0\<close> to \<open>1.0\<close>. The kernel never
  reads \<open>x\<close>.
\<close>

theorem elementwise_frame_counterexample:
  "extent \<lparr>gpudata = 8, shape = [3], layout = C_contiguous\<rparr>
     \<inter> extent \<lparr>gpudata = 0, shape = [2], layout = C_contiguous\<rparr> = {}
   \<and> extent \<lparr>gpudata = 32, shape = [3], layout = C_contiguous\<rparr>
     \<inter> extent \<lparr>gpudata = 0, shape = [2], layout = C_contiguous\<rparr> = {}
   \<and> extent \<lparr>gpudata = 48, shape = [3], layout = C_contiguous\<rparr>
     \<inter> extent \<lparr>gpudata = 0, shape = [2], layout = C_contiguous\<rparr> = {}
   \<and> elt (memcpy_htod 8 [0x40000000, 0x40000000, 0x40000000]
            (memcpy_htod 32 [0x3F800000, 0x3F800000, 0x3F800000]
              (memcpy_htod 48 [0x3F800000, 0x3F800000, 0x3F800000] (\<lambda>_. 0))))
        \<lparr>gpudata = 8, shape = [3], layout = C_contiguous\<rparr> 0 = 0x40000000
   \<and> elt (rel_deriv \<lparr>gpudata = 8, shape = [3], layout = C_contiguous\<rparr>
                     \<lparr>gpudata = 32, shape = [3], layout = C_contiguous\<rparr>
                     \<lparr>gpudata = 48, shape = [3], layout = C_contiguous\<rparr>
                     \<lparr>gpudata = 0, shape = [2], layout = C_contiguous\<rparr>
            (memcpy_htod 8 [0x40000000, 0x40000000, 0x40000000]
              (memcpy_htod 32 [0x3F800000, 0x3F800000, 0x3F800000]
                (memcpy_htod 48 [0x3F800000, 0x3F800000, 0x3F800000] (\<lambda>_. 0)))))
        \<lparr>gpudata = 8, shape = [3], layout = C_contiguous\<rparr> 0 = 0x3F800000"
proof -
  let ?x = "\<lparr>gpudata = 8, shape = [3], layout = C_contiguous\<rparr>"
  let ?y = "\<lparr>gpudata = 32, shape = [3], layout = C_contiguous\<rparr>"
  let ?dy = "\<lparr>gpudata = 48, shape = [3], layout = C_contiguous\<rparr>"
  let ?dx = "\<lparr>gpudata = 0, shape = [2], layout = C_contiguous\<rparr>"
  let ?m = "memcpy_htod 8 [0x40000000, 0x40000000, 0x40000000]
            (memcpy_htod 32 [0x3F800000, 0x3F800000, 0x3F800000]
              (memcpy_htod 48 [0x3F800000, 0x3F800000, 0x3F800000] (\<lambda>_. 0)))"
  have dj: "extent ?x \<inter> extent ?dx = {}" "extent ?y \<inter> extent ?dx = {}" "extent ?dy \<inter> extent ?dx = {}"
    by (simp_all add: extent_def nbytes_def gpu_size_def itemsize_def)
  have x0: "elt ?m ?x 0 = 0x40000000"
    by (simp add: elt_def cell_def itemsize_def ld32_st32_other ld32_st32_same)
  have y2: "elt ?m ?y 2 = 0x3F800000"
    by (simp add: elt_def cell_def itemsize_def ld32_st32_other ld32_st32_same)
  have dy2: "elt ?m ?dy 2 = 0x3F800000"
    by (simp add: elt_def cell_def itemsize_def ld32_st32_other ld32_st32_same)
  have pos: "f_lt f_zero 0x3F800000" by (simp add: f_lt_def f_zero_def is_nan_def fkey_def)
  have same: "elt m' ?x 0 = elt m' ?dx 2" for m'
    by (simp add: elt_def cell_def itemsize_def)
  have "elt (rel_deriv ?x ?y ?dy ?dx ?m) ?dx 2
      = (if f_lt f_zero (elt ?m ?y 2) then elt ?m ?dy 2 else f_zero)"
    unfolding rel_deriv_def rel_deriv_kernel_def
    by (rule launch_out_elt) (simp add: gpu_size_def)
  then have "elt (rel_deriv ?x ?y ?dy ?dx ?m) ?x 0 = 0x3F800000"
    unfolding same y2 dy2 using pos by simp
  then show ?thesis using dj x0 by blast
qed

text \<open>
  Claim C9. \<^verbatim>\<open>clip_t(a, a_min, a_max, out)\<close> has no failing branch. Take a flat index
  \<open>i\<close> of \<open>a\<close>. When \<^verbatim>\<open>a[i]\<close> and the two bounds are not NaNs, \<^verbatim>\<open>out[i]\<close> is
  not a NaN, it is one of \<^verbatim>\<open>a[i]\<close>, \<open>a_min\<close> and \<open>a_max\<close>, and it is
  \<open>min (max a[i] a_min) a_max\<close> both as a value and in the order that puts \<open>-0\<close>
  below \<open>+0\<close>, which fixes its bit pattern. When \<^verbatim>\<open>a[i]\<close> is a NaN and the bounds
  are not, \<^verbatim>\<open>out[i]\<close> is the smaller bound. When \<open>a_min\<close> is greater than
  \<open>a_max\<close>, \<^verbatim>\<open>out[i]\<close> is \<open>a_max\<close> whatever \<^verbatim>\<open>a[i]\<close> is, a NaN included.
\<close>

theorem clip_t_clamps:
  assumes "i < gpu_size a"
  shows "(\<not> is_nan (elt m a i) \<and> \<not> is_nan a_min \<and> \<not> is_nan a_max \<longrightarrow>
            \<not> is_nan (elt (clip_t u a a_min a_max out m) out i)
          \<and> ford (elt (clip_t u a a_min a_max out m) out i)
              = min (max (ford (elt m a i)) (ford a_min)) (ford a_max)
          \<and> fkey (elt (clip_t u a a_min a_max out m) out i)
              = min (max (fkey (elt m a i)) (fkey a_min)) (fkey a_max)
          \<and> elt (clip_t u a a_min a_max out m) out i \<in> {elt m a i, a_min, a_max})
       \<and> (is_nan (elt m a i) \<and> \<not> is_nan a_min \<and> \<not> is_nan a_max \<longrightarrow>
            \<not> is_nan (elt (clip_t u a a_min a_max out m) out i)
          \<and> ford (elt (clip_t u a a_min a_max out m) out i) = min (ford a_min) (ford a_max)
          \<and> elt (clip_t u a a_min a_max out m) out i \<in> {a_min, a_max})
       \<and> (f_lt a_max a_min \<longrightarrow> elt (clip_t u a a_min a_max out m) out i = a_max)"
proof -
  have r: "elt (clip_t u a a_min a_max out m) out i = fminf u (fmaxf u (elt m a i) a_min) a_max"
    using assms by (simp add: clip_t_def clip_kernel_def launch_out_elt)
  show ?thesis
    unfolding r
    using clamp_value [of "elt m a i" a_min a_max u] clamp_nan [of "elt m a i" a_min a_max u]
      clamp_upper_wins [of a_max a_min u "elt m a i"]
    by blast
qed

text \<open>
  \<open>5.0\<close> clipped to \<open>[1.0, 3.0]\<close> is \<open>3.0\<close>; \<open>-0.0\<close> clipped to
  \<open>[+0.0, 1.0]\<close> is \<open>+0.0\<close>; a NaN clipped to \<open>[1.0, 3.0]\<close> is \<open>1.0\<close>; and
  \<open>5.0\<close> with \<open>a_min = 3.0\<close> and \<open>a_max = 1.0\<close> is \<open>1.0\<close>.
\<close>

theorem clip_t_clamps_witness:
  "(0::nat) < gpu_size \<lparr>gpudata = 0, shape = [1], layout = C_contiguous\<rparr>
   \<and> \<not> is_nan 0x40A00000 \<and> \<not> is_nan 0x3F800000 \<and> \<not> is_nan 0x40400000
   \<and> (\<forall>u. elt (clip_t u \<lparr>gpudata = 0, shape = [1], layout = C_contiguous\<rparr> 0x3F800000 0x40400000
            \<lparr>gpudata = 4, shape = [1], layout = C_contiguous\<rparr> (memcpy_htod 0 [0x40A00000] (\<lambda>_. 0)))
          \<lparr>gpudata = 4, shape = [1], layout = C_contiguous\<rparr> 0 = 0x40400000)
   \<and> \<not> is_nan 0x00000000
   \<and> (\<forall>u. elt (clip_t u \<lparr>gpudata = 0, shape = [1], layout = C_contiguous\<rparr> 0x00000000 0x3F800000
            \<lparr>gpudata = 4, shape = [1], layout = C_contiguous\<rparr> (memcpy_htod 0 [0x80000000] (\<lambda>_. 0)))
          \<lparr>gpudata = 4, shape = [1], layout = C_contiguous\<rparr> 0 = 0x00000000)
   \<and> is_nan 0x7FC00000
   \<and> (\<forall>u. elt (clip_t u \<lparr>gpudata = 0, shape = [1], layout = C_contiguous\<rparr> 0x3F800000 0x40400000
            \<lparr>gpudata = 4, shape = [1], layout = C_contiguous\<rparr> (memcpy_htod 0 [0x7FC00000] (\<lambda>_. 0)))
          \<lparr>gpudata = 4, shape = [1], layout = C_contiguous\<rparr> 0 = 0x3F800000)
   \<and> f_lt 0x3F800000 0x40400000
   \<and> (\<forall>u. elt (clip_t u \<lparr>gpudata = 0, shape = [1], layout = C_contiguous\<rparr> 0x40400000 0x3F800000
            \<lparr>gpudata = 4, shape = [1], layout = C_contiguous\<rparr> (memcpy_htod 0 [0x40A00000] (\<lambda>_. 0)))
          \<lparr>gpudata = 4, shape = [1], layout = C_contiguous\<rparr> 0 = 0x3F800000)"
proof -
  let ?a = "\<lparr>gpudata = 0, shape = [1], layout = C_contiguous\<rparr>"
  let ?o = "\<lparr>gpudata = 4, shape = [1], layout = C_contiguous\<rparr>"
  let ?m = "\<lambda>w. memcpy_htod 0 [w] (\<lambda>_. 0)"
  have h1: "(0::nat) < gpu_size ?a" by (simp add: gpu_size_def)
  have n5: "\<not> is_nan 0x40A00000" and n1: "\<not> is_nan 0x3F800000" and n3: "\<not> is_nan 0x40400000"
    and n0: "\<not> is_nan 0x00000000" and nm: "\<not> is_nan 0x80000000" and nn: "is_nan 0x7FC00000"
    by (simp_all add: is_nan_def)
  have lt: "f_lt 0x3F800000 0x40400000" by (simp add: f_lt_def is_nan_def fkey_def)
  have o5: "ford 0x40A00000 = 0x40A00000" and o1: "ford 0x3F800000 = 0x3F800000"
    and o3: "ford 0x40400000 = 0x40400000" and o0: "ford 0x00000000 = 0"
    by (simp_all add: ford_pos)
  have om: "ford 0x80000000 = - 1" by (simp add: ford_def fkey_def)
  have e: "elt (?m w) ?a 0 = w" for w by (rule elt_single)
  have c1: "elt (clip_t u ?a 0x3F800000 0x40400000 ?o (?m 0x40A00000)) ?o 0 = 0x40400000" for u
  proof (rule ford_inj)
    show "ford (elt (clip_t u ?a 0x3F800000 0x40400000 ?o (?m 0x40A00000)) ?o 0) = ford 0x40400000"
      using clip_t_clamps [OF h1, of "?m 0x40A00000" "0x3F800000" "0x40400000" u ?o] n5 n1 n3
      unfolding e o5 o1 o3 by simp
  qed
  have c2: "elt (clip_t u ?a 0x00000000 0x3F800000 ?o (?m 0x80000000)) ?o 0 = 0x00000000" for u
  proof (rule ford_inj)
    show "ford (elt (clip_t u ?a 0x00000000 0x3F800000 ?o (?m 0x80000000)) ?o 0) = ford 0x00000000"
      using clip_t_clamps [OF h1, of "?m 0x80000000" "0x00000000" "0x3F800000" u ?o] nm n0 n1
      unfolding e om o0 o1 by simp
  qed
  have c3: "elt (clip_t u ?a 0x3F800000 0x40400000 ?o (?m 0x7FC00000)) ?o 0 = 0x3F800000" for u
  proof (rule ford_inj)
    show "ford (elt (clip_t u ?a 0x3F800000 0x40400000 ?o (?m 0x7FC00000)) ?o 0) = ford 0x3F800000"
      using clip_t_clamps [OF h1, of "?m 0x7FC00000" "0x3F800000" "0x40400000" u ?o] nn n1 n3
      unfolding e o1 o3 by simp
  qed
  have c4: "elt (clip_t u ?a 0x40400000 0x3F800000 ?o (?m 0x40A00000)) ?o 0 = 0x3F800000" for u
    using clip_t_clamps [OF h1, of "?m 0x40A00000" "0x40400000" "0x3F800000" u ?o] lt by blast
  show ?thesis using h1 n5 n1 n3 n0 nn lt c1 c2 c3 c4 by blast
qed

section \<open>Device-to-device copy\<close>

text \<open>
  Claim C10. \<^verbatim>\<open>copy_to(dest, src)\<close> hands the driver \<^verbatim>\<open>dest.nbytes\<close> as the byte
  count and checks nothing: the call has no failing branch. The bytes transferred are
  the \<^verbatim>\<open>dest.nbytes\<close> bytes that start at \<^verbatim>\<open>src.gpudata\<close>; every byte of
  \<open>dest\<close> receives the byte at the same offset of \<open>src\<close>, and no byte outside \<open>dest\<close>
  changes. The shape of \<open>src\<close>, hence its byte size, plays no part: when \<open>src\<close> holds
  more bytes than \<open>dest\<close>, two memories that differ only in the trailing bytes of \<open>src\<close>
  give \<open>dest\<close> the same contents.
\<close>

theorem copy_to_sized_by_dest:
  "copy_to dest src m = write_bytes m (gpudata dest) (read_bytes m (gpudata src) (nbytes dest))
   \<and> length (read_bytes m (gpudata src) (nbytes dest)) = nbytes dest
   \<and> (\<forall>q. copy_to dest src m q =
          (if q \<in> extent dest then m (gpudata src + (q - gpudata dest)) else m q))
   \<and> copy_to dest (src\<lparr>shape := s\<rparr>) m = copy_to dest src m
   \<and> (nbytes dest < nbytes src
        \<and> (\<forall>j. j < nbytes dest \<longrightarrow> m' (gpudata src + j) = m (gpudata src + j))
      \<longrightarrow> (\<forall>j. j < nbytes dest \<longrightarrow>
             copy_to dest src m' (gpudata dest + j) = copy_to dest src m (gpudata dest + j)))"
  by (simp add: copy_to_def memcpy_dtod_def write_read_bytes length_read_bytes extent_def)

theorem copy_to_sized_by_dest_witness:
  "nbytes \<lparr>gpudata = 0, shape = [1], layout = C_contiguous\<rparr> < nbytes \<lparr>gpudata = 16, shape = [2], layout = C_contiguous\<rparr>
   \<and> ((\<lambda>_::nat. 7)(20 := 9 :: byte)) (16 + 3) = (\<lambda>_::nat. 7 :: byte) (16 + 3)
   \<and> copy_to \<lparr>gpudata = 0, shape = [1], layout = C_contiguous\<rparr> \<lparr>gpudata = 16, shape = [2], layout = C_contiguous\<rparr> ((\<lambda>_. 7)(20 := 9)) (0 + 3)
     = copy_to \<lparr>gpudata = 0, shape = [1], layout = C_contiguous\<rparr> \<lparr>gpudata = 16, shape = [2], layout = C_contiguous\<rparr> (\<lambda>_. 7) (0 + 3)"
  using copy_to_sized_by_dest [of "\<lparr>gpudata = 0, shape = [1], layout = C_contiguous\<rparr>" "\<lparr>gpudata = 16, shape = [2], layout = C_contiguous\<rparr>"
      "\<lambda>_. 7" "[2]" "(\<lambda>_. 7)(20 := 9)"]
  by (simp add: nbytes_def gpu_size_def itemsize_def)

end
